theory Spec2Isabelle
  imports Complex_Main "HOL-Library.Multiset"
begin

section \<open>Batch and epoch loops over array data (keras/engine/training\_arrays.py)\<close>

text \<open>
  A shallow embedding of \<^verbatim>\<open>get_batch_generator\<close>, \<^verbatim>\<open>get_batch_size\<close>,
  \<^verbatim>\<open>evaluate_loop\<close>, \<^verbatim>\<open>predict_loop\<close> and \<^verbatim>\<open>fit_loop\<close>.
  Python exceptions are values of \<open>pyerr\<close>; a function that can raise returns
  \<open>pyerr + 'a\<close> with \<open>Inl\<close> the exception. Python floats are modelled by the real
  number they denote, so \<^verbatim>\<open>float(x)\<close> is the identity on values and rounding is
  not modelled.
\<close>

subsection \<open>Exceptions and array-like values\<close>

datatype pyerr =
    TypeError string
  | ValueError string
  | IndexError
  | AttributeError
  | ZeroDivisionError

text \<open>
  The members of an input bundle. \<open>NdArray rows\<close> is a numpy array given by its rows
  along the sample axis, \<open>SparseMatrix rows\<close> a scipy sparse matrix (it has
  \<^verbatim>\<open>toarray()\<close>), \<open>PyFloat x\<close> a Python float such as the training-phase flag, and
  \<open>Indexable get sh\<close> any other container: \<open>get\<close> is its \<^verbatim>\<open>__getitem__\<close> on a list of
  indices, which may raise, and \<open>sh\<close> its \<^verbatim>\<open>shape[0]\<close> when it has a shape.
\<close>

datatype 'a tensor =
    NdArray "'a list"
  | SparseMatrix "'a list"
  | PyFloat real
  | Indexable "nat list \<Rightarrow> pyerr + 'a list" "nat option"

text \<open>\<^verbatim>\<open>isinstance(x, float)\<close>.\<close>

fun is_float :: "'a tensor \<Rightarrow> bool" where
  "is_float (PyFloat _) = True"
| "is_float _ = False"

text \<open>\<^verbatim>\<open>x.shape[0]\<close>; a value without a shape raises AttributeError.\<close>

fun shape0 :: "'a tensor \<Rightarrow> pyerr + nat" where
  "shape0 (NdArray rows) = Inr (length rows)"
| "shape0 (SparseMatrix rows) = Inr (length rows)"
| "shape0 (PyFloat _) = Inl AttributeError"
| "shape0 (Indexable _ sh) = (case sh of None \<Rightarrow> Inl AttributeError | Some n \<Rightarrow> Inr n)"

text \<open>
  \<^verbatim>\<open>x[ids]\<close> for a list of indices: numpy and scipy pick the rows and raise IndexError
  for an index out of range, a float is not subscriptable (TypeError), another container
  answers by its own \<^verbatim>\<open>__getitem__\<close>.
\<close>

fun getitem :: "nat list \<Rightarrow> 'a tensor \<Rightarrow> pyerr + 'a tensor" where
  "getitem ids (NdArray rows) =
     (if \<forall>i \<in> set ids. i < length rows then Inr (NdArray (map ((!) rows) ids))
      else Inl IndexError)"
| "getitem ids (SparseMatrix rows) =
     (if \<forall>i \<in> set ids. i < length rows then Inr (SparseMatrix (map ((!) rows) ids))
      else Inl IndexError)"
| "getitem ids (PyFloat _) = Inl (TypeError ''float object is not subscriptable'')"
| "getitem ids (Indexable get sh) =
     (case get ids of Inl e \<Rightarrow> Inl e | Inr rows \<Rightarrow> Inr (NdArray rows))"

text \<open>\<^verbatim>\<open>x.toarray()\<close>: only a sparse matrix has it.\<close>

fun toarray :: "'a tensor \<Rightarrow> pyerr + 'a tensor" where
  "toarray (SparseMatrix rows) = Inr (NdArray rows)"
| "toarray _ = Inl AttributeError"

subsection \<open>Helpers imported from training\_utils and generic\_utils\<close>

text \<open>
  Modelled from the spec: \<^verbatim>\<open>slice_arrays\<close> of \<^verbatim>\<open>utils/generic_utils.py\<close> is not among
  the sources. The spec says that slicing a bundle by a batch's indices yields a batch
  bundle of the same arity: every member is indexed by the index list, in order, and the
  first member that raises ends the call with its exception.
\<close>

fun slice_arrays :: "'a tensor list \<Rightarrow> nat list \<Rightarrow> pyerr + 'a tensor list" where
  "slice_arrays [] ids = Inr []"
| "slice_arrays (x # xs) ids =
     (case getitem ids x of
        Inl e \<Rightarrow> Inl e
      | Inr y \<Rightarrow> (case slice_arrays xs ids of Inl e \<Rightarrow> Inl e | Inr ys \<Rightarrow> Inr (y # ys)))"

text \<open>
  Modelled from the spec: \<^verbatim>\<open>make_batches\<close> of \<^verbatim>\<open>training_utils.py\<close> is not among the
  sources. The spec derives the batch count by dividing the sample count by the batch
  size, rounding up, and lets the batches be consecutive index ranges of that width, the
  last one ending at the sample count. Dividing by a batch size of zero raises.
\<close>

definition make_batches :: "nat \<Rightarrow> nat \<Rightarrow> pyerr + (nat \<times> nat) list" where
  "make_batches num batch_size =
     (if batch_size = 0 then Inl ZeroDivisionError
      else Inr (map (\<lambda>i. (i * batch_size, min num ((i + 1) * batch_size)))
                    [0 ..< (num + batch_size - 1) div batch_size]))"

text \<open>
  \<^verbatim>\<open>np.random.shuffle\<close> permutes a sequence in place with draws from numpy's global
  generator. The draws are an argument here: position \<open>i\<close>, from the last one down to 1,
  is exchanged with position \<open>d mod (i + 1)\<close> for the next draw \<open>d\<close>; when the draws run
  out the remaining positions stay.
\<close>

fun shuffle_from :: "nat \<Rightarrow> nat list \<Rightarrow> 'b list \<Rightarrow> 'b list" where
  "shuffle_from 0 ds xs = xs"
| "shuffle_from (Suc i) [] xs = xs"
| "shuffle_from (Suc i) (d # ds) xs =
     shuffle_from i ds (xs[Suc i := xs ! (d mod Suc (Suc i)), d mod Suc (Suc i) := xs ! Suc i])"

definition random_shuffle :: "nat list \<Rightarrow> 'b list \<Rightarrow> 'b list" where
  "random_shuffle ds xs = shuffle_from (length xs - 1) ds xs"

text \<open>\<^verbatim>\<open>reshape((batch_count, batch_size))\<close>: the rows of the reshaped index array.\<close>

fun reshape :: "nat \<Rightarrow> nat \<Rightarrow> 'b list \<Rightarrow> 'b list list" where
  "reshape 0 batch_size xs = []"
| "reshape (Suc batch_count) batch_size xs =
     take batch_size xs # reshape batch_count batch_size (drop batch_size xs)"

text \<open>
  Modelled from the spec: \<^verbatim>\<open>batch_shuffle\<close> of \<^verbatim>\<open>training_utils.py\<close> is not among the
  sources. The spec says that block-shuffle permutes batch-sized chunks of indices rather
  than single indices, that only whole batches are permuted and that the order inside a
  chunk is kept: the whole chunks are shuffled as units and the indices left over, fewer
  than a batch, stay at the end.
\<close>

definition batch_shuffle :: "nat list \<Rightarrow> nat list \<Rightarrow> nat \<Rightarrow> pyerr + nat list" where
  "batch_shuffle ds index_array batch_size =
     (if batch_size = 0 then Inl ZeroDivisionError
      else
        let batch_count = length index_array div batch_size;
            last_batch = drop (batch_count * batch_size) index_array;
            blocks = reshape batch_count batch_size (take (batch_count * batch_size) index_array)
        in Inr (concat (random_shuffle ds blocks) @ last_batch))"

subsection \<open>The batch generator\<close>

text \<open>The \<^verbatim>\<open>shuffle\<close> argument: false, the string \<^verbatim>\<open>'batch'\<close>, or another true value.\<close>

datatype shuffle_mode = No_shuffle | Shuffle_batch | Shuffle_all

definition batch_error_message :: string where
  "batch_error_message =
     ''TypeError while preparing batch. If using HDF5 input data, pass shuffle=''
       @ [CHR 0x22] @ ''batch'' @ [CHR 0x22] @ ''.''"

text \<open>
  Lines 458 to 462: the index array, after the shuffle chosen by \<open>shuffle\<close>. \<open>ds\<close> are
  the draws of the random generator.
\<close>

definition index_array_of :: "nat \<Rightarrow> nat \<Rightarrow> shuffle_mode \<Rightarrow> nat list \<Rightarrow> pyerr + nat list" where
  "index_array_of num_samples batch_size shuffle ds =
     (case shuffle of
        Shuffle_batch \<Rightarrow> batch_shuffle ds [0 ..< num_samples] batch_size
      | Shuffle_all \<Rightarrow> Inr (random_shuffle ds [0 ..< num_samples])
      | No_shuffle \<Rightarrow> Inr [0 ..< num_samples])"

text \<open>\<^verbatim>\<open>index_array[batch_start:batch_end]\<close>.\<close>

definition batch_ids_of :: "nat list \<Rightarrow> nat \<times> nat \<Rightarrow> nat list" where
  "batch_ids_of index_array batch = take (snd batch - fst batch) (drop (fst batch) index_array)"

text \<open>
  Lines 468 to 478, the body of the \<^verbatim>\<open>try\<close> and its handler. \<^verbatim>\<open>ins[-1]\<close> on an empty
  bundle raises IndexError, which the handler does not catch; a TypeError of the slicing
  is replaced by the TypeError with the fixed message.
\<close>

definition prepare_batch :: "'a tensor list \<Rightarrow> nat list \<Rightarrow> pyerr + 'a tensor list" where
  "prepare_batch ins batch_ids =
     (if ins = [] then Inl IndexError
      else
        case (if is_float (last ins)
              then (case slice_arrays (butlast ins) batch_ids of
                      Inl e \<Rightarrow> Inl e | Inr b \<Rightarrow> Inr (b @ [last ins]))
              else slice_arrays ins batch_ids) of
          Inl (TypeError _) \<Rightarrow> Inl (TypeError batch_error_message)
        | Inl e \<Rightarrow> Inl e
        | Inr batch_ins \<Rightarrow> Inr batch_ins)"

text \<open>
  A generator is modelled by what it yields, in order, and the exception that ends it, if
  one does: after raising, a generator yields nothing more.
\<close>

type_synonym 'a generator = "'a tensor list list \<times> pyerr option"

fun yield_batches :: "'a tensor list \<Rightarrow> nat list \<Rightarrow> (nat \<times> nat) list \<Rightarrow> 'a generator" where
  "yield_batches ins index_array [] = ([], None)"
| "yield_batches ins index_array (batch # batches) =
     (case prepare_batch ins (batch_ids_of index_array batch) of
        Inl e \<Rightarrow> ([], Some e)
      | Inr batch_ins \<Rightarrow>
          (case yield_batches ins index_array batches of
             (ys, r) \<Rightarrow> (batch_ins # ys, r)))"

definition get_batch_generator ::
  "'a tensor list \<Rightarrow> nat \<Rightarrow> nat \<Rightarrow> shuffle_mode \<Rightarrow> nat list \<Rightarrow> 'a generator" where
  "get_batch_generator ins num_samples batch_size shuffle ds =
     (case index_array_of num_samples batch_size shuffle ds of
        Inl e \<Rightarrow> ([], Some e)
      | Inr index_array \<Rightarrow>
          (case make_batches num_samples batch_size of
             Inl e \<Rightarrow> ([], Some e)
           | Inr batches \<Rightarrow> yield_batches ins index_array batches))"

text \<open>\<^verbatim>\<open>get_batch_size\<close>: \<^verbatim>\<open>batch_ins[0].shape[0]\<close>.\<close>

definition get_batch_size :: "'a tensor list \<Rightarrow> pyerr + nat" where
  "get_batch_size batch_ins = (case batch_ins of [] \<Rightarrow> Inl IndexError | x # _ \<Rightarrow> shape0 x)"

text \<open>
  An example of a container that is not a numpy array: a dataset that, like an HDF5
  dataset, answers an index list only when it is strictly increasing and raises TypeError
  otherwise. It is used in examples only.
\<close>

definition increasing_only :: "'a list \<Rightarrow> 'a tensor" where
  "increasing_only rows =
     Indexable (\<lambda>ids. if \<not> sorted_wrt (<) ids
                       then Inl (TypeError ''Indexing elements must be in increasing order'')
                     else if \<forall>i \<in> set ids. i < length rows then Inr (map ((!) rows) ids)
                     else Inl IndexError)
               (Some (length rows))"

subsection \<open>The model, the observers and the trace of a run\<close>

text \<open>
  The attributes of the model that the loops and the observers write: the three stop
  flags, and everything else an observer or a compute step may change (weights, the
  state of stateful metrics, the observers' own state, among them the History object)
  as a value of type \<open>'u\<close>.
\<close>

record 'u handle =
  stop_training :: bool
  stop_evaluating :: bool
  stop_predicting :: bool
  user :: 'u

text \<open>Logs dictionaries: from a key to a number.\<close>

type_synonym logs = "string \<rightharpoonup> real"

text \<open>
  A numpy array returned by the predict step: the shape after the leading dimension, and
  the rows along the leading dimension, each row holding the entries of its block.
\<close>

record ndarray =
  tail :: "nat list"
  rows :: "real list list"

text \<open>
  The \<^verbatim>\<open>CallbackList\<close> that a loop notifies, with the built-in loggers the loop adds to
  the caller's callbacks. Each hook may change the handle; it cannot raise. The
  parameters given to \<^verbatim>\<open>set_params\<close> and the \<^verbatim>\<open>validation_data\<close> attribute are fixed by the
  arguments of the call, so a hook that reads them is one of the functions below.
\<close>

record 'u callbacks =
  set_model :: "'u handle \<Rightarrow> 'u handle"
  set_params :: "'u handle \<Rightarrow> 'u handle"
  on_train_begin :: "'u handle \<Rightarrow> 'u handle"
  on_train_end :: "'u handle \<Rightarrow> 'u handle"
  on_epoch_begin :: "nat \<Rightarrow> 'u handle \<Rightarrow> 'u handle"
  on_epoch_end :: "nat \<Rightarrow> logs \<Rightarrow> 'u handle \<Rightarrow> 'u handle"
  on_fit_batch_begin :: "nat \<Rightarrow> logs \<Rightarrow> 'u handle \<Rightarrow> 'u handle"
  on_fit_batch_end :: "nat \<Rightarrow> logs \<Rightarrow> 'u handle \<Rightarrow> 'u handle"
  on_evaluate_batch_begin :: "nat \<Rightarrow> logs \<Rightarrow> 'u handle \<Rightarrow> 'u handle"
  on_evaluate_batch_end :: "nat \<Rightarrow> logs \<Rightarrow> 'u handle \<Rightarrow> 'u handle"
  on_predict_batch_begin :: "nat \<Rightarrow> logs \<Rightarrow> 'u handle \<Rightarrow> 'u handle"
  on_predict_batch_end :: "nat \<Rightarrow> logs \<Rightarrow> 'u handle \<Rightarrow> 'u handle"

text \<open>
  The model as the loops use it. The compute steps are opaque: they map a bundle and the
  handle to their outputs and the new handle, and they return. \<open>has_metrics\<close> is
  \<^verbatim>\<open>hasattr(model, 'metrics')\<close>; \<open>reset_states\<close> resets every stateful metric function;
  the flag of \<open>get_sparse_conversion_indices\<close> is its \<^verbatim>\<open>only_input\<close> argument.
\<close>

record ('u, 'a) model =
  has_metrics :: bool
  stateful_metric_names :: "string list"
  reset_states :: "'u handle \<Rightarrow> 'u handle"
  get_sparse_conversion_indices :: "bool \<Rightarrow> 'a tensor list \<Rightarrow> nat list"
  train_function :: "'a tensor list \<Rightarrow> 'u handle \<Rightarrow> real list \<times> 'u handle"
  test_function :: "'a tensor list \<Rightarrow> 'u handle \<Rightarrow> real list \<times> 'u handle"
  predict_function :: "'a tensor list \<Rightarrow> 'u handle \<Rightarrow> ndarray list \<times> 'u handle"

text \<open>
  What a run does, in order. \<open>Printed\<close> is the line written to standard output by
  \<^verbatim>\<open>fit_loop\<close>. \<open>Fit_batch_end i stop\<close> also records the value of \<^verbatim>\<open>stop_training\<close> that
  the loop reads after the notification; \<open>Evaluate_batch_end i size outs\<close> and
  \<open>Predict_batch_end i size outs\<close> also record the batch's sample count and the outputs
  of its compute step.
\<close>

datatype 'a event =
    Printed nat nat
  | Set_model
  | Set_params
  | Reset_states
  | Train_begin
  | Train_end
  | Epoch_begin nat
  | Epoch_end nat
  | Fit_batch_begin nat
  | Train_step "'a tensor list" "real list"
  | Fit_batch_end nat bool
  | Evaluate_batch_begin nat
  | Test_step "'a tensor list" "real list"
  | Evaluate_batch_end nat nat "real list"
  | Predict_batch_begin nat
  | Predict_step "'a tensor list" "ndarray list"
  | Predict_batch_end nat nat "ndarray list"

text \<open>
  The state of a run: the handle, \<^verbatim>\<open>model.metrics_names\<close> (a list that \<^verbatim>\<open>fit_loop\<close>
  extends in place), and the events so far, oldest first.
\<close>

record ('u, 'a) world =
  handle :: "'u handle"
  metrics_names :: "string list"
  trace :: "'a event list"

definition notify :: "('u handle \<Rightarrow> 'u handle) \<Rightarrow> 'a event \<Rightarrow> ('u, 'a) world \<Rightarrow> ('u, 'a) world" where
  "notify hook ev w = w\<lparr>handle := hook (handle w), trace := trace w @ [ev]\<rparr>"

text \<open>\<^verbatim>\<open>for l, v in zip(labels, outs): logs[l] = v\<close>.\<close>

definition add_logs :: "string list \<Rightarrow> real list \<Rightarrow> logs \<Rightarrow> logs" where
  "add_logs labels outs lg = fold (\<lambda>(l, v) m. m(l \<mapsto> v)) (zip labels outs) lg"

text \<open>\<^verbatim>\<open>for i in indices_for_conversion_to_dense: batch_ins[i] = batch_ins[i].toarray()\<close>.\<close>

fun densify :: "nat list \<Rightarrow> 'a tensor list \<Rightarrow> pyerr + 'a tensor list" where
  "densify [] batch_ins = Inr batch_ins"
| "densify (i # indices) batch_ins =
     (if i < length batch_ins
      then (case toarray (batch_ins ! i) of
              Inl e \<Rightarrow> Inl e
            | Inr dense \<Rightarrow> densify indices (batch_ins[i := dense]))
      else Inl IndexError)"

text \<open>
  \<^verbatim>\<open>check_num_samples\<close> of \<^verbatim>\<open>training_utils.py\<close> is not among the sources and the spec
  does not describe it, so the loops take it as their first argument: a function of the
  bundle, the batch size, the step count and the name of the step argument that raises
  or returns the sample count, if one is known.
\<close>

type_synonym 'a check_num_samples =
  "'a tensor list \<Rightarrow> nat option \<Rightarrow> nat option \<Rightarrow> string \<Rightarrow> pyerr + nat option"

text \<open>
  \<^verbatim>\<open>enumerate(batch_generator)\<close> as the loops read it: the bundles in order, then the
  exception, if the generator ends with one. Without a sample count or a batch size the
  generator raises a TypeError at its first step (\<^verbatim>\<open>np.arange(None)\<close>, or the arithmetic
  of \<^verbatim>\<open>make_batches\<close> on \<^verbatim>\<open>None\<close>).
\<close>

definition generator_items :: "'a generator \<Rightarrow> (pyerr + 'a tensor list) list" where
  "generator_items g = map Inr (fst g) @ (case snd g of None \<Rightarrow> [] | Some e \<Rightarrow> [Inl e])"

definition batch_items ::
  "'a tensor list \<Rightarrow> nat option \<Rightarrow> nat option \<Rightarrow> shuffle_mode \<Rightarrow> nat list
     \<Rightarrow> (pyerr + 'a tensor list) list" where
  "batch_items ins num_samples batch_size shuffle ds =
     (case (num_samples, batch_size) of
        (Some n, Some b) \<Rightarrow> generator_items (get_batch_generator ins n b shuffle ds)
      | _ \<Rightarrow> [Inl (TypeError ''unsupported operand type: NoneType'')])"

subsection \<open>The evaluate loop\<close>

text \<open>
  \<^verbatim>\<open>[i for i, name in enumerate(model.metrics_names) if str(name) in
  model.stateful_metric_names]\<close>, or the empty list for a model without metrics.
\<close>

definition stateful_metric_indices_of :: "('u, 'a) model \<Rightarrow> string list \<Rightarrow> nat list" where
  "stateful_metric_indices_of M names =
     (if has_metrics M
      then filter (\<lambda>i. names ! i \<in> set (stateful_metric_names M)) [0 ..< length names]
      else [])"

text \<open>
  \<^verbatim>\<open>for i, batch_out in enumerate(batch_outs)\<close> with an assignment to \<^verbatim>\<open>outs[i]\<close>: \<open>f i\<close>
  gives the new entry from the old one and the batch's output. An index beyond the end
  of \<^verbatim>\<open>outs\<close> raises IndexError.
\<close>

fun update_outs ::
  "(nat \<Rightarrow> 'b \<Rightarrow> 'c \<Rightarrow> 'b) \<Rightarrow> nat \<Rightarrow> 'c list \<Rightarrow> 'b list \<Rightarrow> pyerr + 'b list" where
  "update_outs f i [] outs = Inr outs"
| "update_outs f i (batch_out # batch_outs) outs =
     (if i < length outs
      then update_outs f (Suc i) batch_outs (outs[i := f i (outs ! i) batch_out])
      else Inl IndexError)"

text \<open>
  Lines 395 to 418: the steps from \<open>step\<close> on, \<open>remaining\<close> of them. In step mode the size of
  a batch in the logs is 1.
\<close>

fun evaluate_steps ::
  "('u, 'a) model \<Rightarrow> 'u callbacks \<Rightarrow> 'a tensor list \<Rightarrow> string list \<Rightarrow> nat list
     \<Rightarrow> nat \<Rightarrow> nat \<Rightarrow> real list \<Rightarrow> ('u, 'a) world \<Rightarrow> (pyerr + real list) \<times> ('u, 'a) world" where
  "evaluate_steps M cb ins out_labels stateful_metric_indices step 0 outs w = (Inr outs, w)"
| "evaluate_steps M cb ins out_labels stateful_metric_indices step (Suc remaining) outs w =
     (let batch_logs = [''batch'' \<mapsto> real step, ''size'' \<mapsto> 1];
          w1 = notify (on_evaluate_batch_begin cb step batch_logs) (Evaluate_batch_begin step) w;
          (batch_outs, h2) = test_function M ins (handle w1);
          w2 = w1\<lparr>handle := h2, trace := trace w1 @ [Test_step ins batch_outs]\<rparr>;
          batch_logs = add_logs out_labels batch_outs batch_logs;
          w3 = notify (on_evaluate_batch_end cb step batch_logs)
                 (Evaluate_batch_end step 1 batch_outs) w2;
          outs1 = (if step = 0 then outs @ replicate (length batch_outs) 0 else outs)
      in case update_outs
                (\<lambda>i out batch_out.
                   if i \<in> set stateful_metric_indices then batch_out else out + batch_out)
                0 batch_outs outs1 of
           Inl e \<Rightarrow> (Inl e, w3)
         | Inr outs2 \<Rightarrow>
             if stop_evaluating (handle w3) then (Inr outs2, w3)
             else evaluate_steps M cb ins out_labels stateful_metric_indices
                    (Suc step) remaining outs2 w3)"

text \<open>
  Lines 424 to 450: the batches of the generator from index \<open>batch_index\<close> on. An
  exception of the generator, of \<^verbatim>\<open>get_batch_size\<close> or of the conversion to dense ends
  the loop.
\<close>

fun evaluate_batches ::
  "('u, 'a) model \<Rightarrow> 'u callbacks \<Rightarrow> nat list \<Rightarrow> string list \<Rightarrow> nat list
     \<Rightarrow> nat \<Rightarrow> (pyerr + 'a tensor list) list \<Rightarrow> real list \<Rightarrow> ('u, 'a) world
     \<Rightarrow> (pyerr + real list) \<times> ('u, 'a) world" where
  "evaluate_batches M cb indices out_labels stateful_metric_indices batch_index [] outs w =
     (Inr outs, w)"
| "evaluate_batches M cb indices out_labels stateful_metric_indices batch_index
     (Inl e # items) outs w = (Inl e, w)"
| "evaluate_batches M cb indices out_labels stateful_metric_indices batch_index
     (Inr batch_ins # items) outs w =
     (case get_batch_size batch_ins of
        Inl e \<Rightarrow> (Inl e, w)
      | Inr bsize \<Rightarrow>
          let batch_logs = [''batch'' \<mapsto> real batch_index, ''size'' \<mapsto> real bsize];
              w1 = notify (on_evaluate_batch_begin cb batch_index batch_logs)
                     (Evaluate_batch_begin batch_index) w
          in case densify indices batch_ins of
               Inl e \<Rightarrow> (Inl e, w1)
             | Inr dense \<Rightarrow>
                 let (batch_outs, h2) = test_function M dense (handle w1);
                     w2 = w1\<lparr>handle := h2, trace := trace w1 @ [Test_step dense batch_outs]\<rparr>;
                     batch_logs = add_logs out_labels batch_outs batch_logs;
                     w3 = notify (on_evaluate_batch_end cb batch_index batch_logs)
                            (Evaluate_batch_end batch_index bsize batch_outs) w2;
                     outs1 = (if batch_index = 0 then outs @ replicate (length batch_outs) 0
                              else outs)
                 in case update_outs
                           (\<lambda>i out batch_out.
                              if i \<in> set stateful_metric_indices then batch_out
                              else out + batch_out * real bsize)
                           0 batch_outs outs1 of
                      Inl e \<Rightarrow> (Inl e, w3)
                    | Inr outs2 \<Rightarrow>
                        if stop_evaluating (handle w3) then (Inr outs2, w3)
                        else evaluate_batches M cb indices out_labels stateful_metric_indices
                               (Suc batch_index) items outs2 w3)"

text \<open>
  Lines 419 to 421 and 451 to 453: every entry that is not of a stateful metric is
  divided by \<open>d\<close>, the step count or the sample count. Dividing by zero raises.
\<close>

definition divide_outs :: "nat list \<Rightarrow> nat \<Rightarrow> real list \<Rightarrow> pyerr + real list" where
  "divide_outs stateful_metric_indices d outs =
     (if d = 0 \<and> (\<exists>i \<in> set [0 ..< length outs]. i \<notin> set stateful_metric_indices)
      then Inl ZeroDivisionError
      else Inr (map (\<lambda>i. if i \<in> set stateful_metric_indices then outs ! i
                          else outs ! i / real d) [0 ..< length outs]))"

definition evaluate_loop ::
  "'a check_num_samples \<Rightarrow> ('u, 'a) model \<Rightarrow> 'u callbacks \<Rightarrow> 'a tensor list
     \<Rightarrow> nat option \<Rightarrow> nat option \<Rightarrow> ('u, 'a) world \<Rightarrow> (pyerr + real list) \<times> ('u, 'a) world" where
  "evaluate_loop check_num_samples M cb ins batch_size steps w =
     (let w0 = (if has_metrics M then notify (reset_states M) Reset_states w else w);
          stateful_metric_indices = stateful_metric_indices_of M (metrics_names w0)
      in case check_num_samples ins batch_size steps ''steps'' of
           Inl e \<Rightarrow> (Inl e, w0)
         | Inr num_samples \<Rightarrow>
             let out_labels = map ((@) ''val_'') (metrics_names w0);
                 w1 = notify (set_model cb) Set_model w0;
                 w2 = notify (set_params cb) Set_params w1;
                 w3 = w2\<lparr>handle := (handle w2)\<lparr>stop_evaluating := False\<rparr>\<rparr>;
                 indices = get_sparse_conversion_indices M False ins
             in case steps of
                  Some s \<Rightarrow>
                    (case evaluate_steps M cb ins out_labels stateful_metric_indices 0 s [] w3 of
                       (Inl e, w4) \<Rightarrow> (Inl e, w4)
                     | (Inr outs, w4) \<Rightarrow> (divide_outs stateful_metric_indices s outs, w4))
                | None \<Rightarrow>
                    (case evaluate_batches M cb indices out_labels stateful_metric_indices 0
                            (batch_items ins num_samples batch_size No_shuffle []) [] w3 of
                       (Inl e, w4) \<Rightarrow> (Inl e, w4)
                     | (Inr outs, w4) \<Rightarrow>
                         (case num_samples of
                            Some n \<Rightarrow> divide_outs stateful_metric_indices n outs
                          | None \<Rightarrow> Inl (TypeError ''unsupported operand type: NoneType''),
                          w4)))"

subsection \<open>The predict loop\<close>

text \<open>\<^verbatim>\<open>a.shape\<close> of a numpy array.\<close>

definition shape :: "ndarray \<Rightarrow> nat list" where
  "shape a = length (rows a) # tail a"

text \<open>\<^verbatim>\<open>np.zeros((n,) + dims)\<close>: \<open>n\<close> rows of zeros.\<close>

definition np_zeros :: "nat \<Rightarrow> nat list \<Rightarrow> ndarray" where
  "np_zeros n dims = \<lparr>tail = dims, rows = replicate n (replicate (prod_list dims) 0)\<rparr>"

text \<open>
  \<^verbatim>\<open>out[start:stop] = value\<close>. The slice is cut at the end of the array, as Python does;
  the rows between its bounds are replaced by the rows of the value when the value has
  the shape of the slice. numpy refuses a value of another shape with a ValueError unless
  it can broadcast it; broadcasting is not modelled, and every other shape is refused.
\<close>

definition set_slice :: "ndarray \<Rightarrow> nat \<Rightarrow> nat \<Rightarrow> ndarray \<Rightarrow> pyerr + ndarray" where
  "set_slice out start stop val =
     (let lo = min start (length (rows out));
          hi = min stop (length (rows out))
      in if tail val = tail out \<and> length (rows val) = hi - lo
         then Inr (out\<lparr>rows := take lo (rows out) @ rows val @ drop hi (rows out)\<rparr>)
         else Inl (ValueError ''could not broadcast input array''))"

text \<open>\<^verbatim>\<open>np.concatenate(arrays, axis=0)\<close>.\<close>

definition concatenate :: "ndarray list \<Rightarrow> pyerr + ndarray" where
  "concatenate arrays =
     (case arrays of
        [] \<Rightarrow> Inl (ValueError ''need at least one array to concatenate'')
      | a # _ \<Rightarrow>
          if \<forall>x \<in> set arrays. tail x = tail a
          then Inr \<lparr>tail = tail a, rows = concat (map rows arrays)\<rparr>
          else Inl (ValueError ''all the input array dimensions must match''))"

text \<open>\<^verbatim>\<open>[np.concatenate(out, axis=0) for out in unconcatenated_outs]\<close>.\<close>

fun concatenate_all :: "ndarray list list \<Rightarrow> pyerr + ndarray list" where
  "concatenate_all [] = Inr []"
| "concatenate_all (out # outs) =
     (case concatenate out of
        Inl e \<Rightarrow> Inl e
      | Inr a \<Rightarrow> (case concatenate_all outs of Inl e \<Rightarrow> Inl e | Inr as \<Rightarrow> Inr (a # as)))"

text \<open>Lines 262 to 279: the steps from \<open>step\<close> on, \<open>remaining\<close> of them.\<close>

fun predict_steps ::
  "('u, 'a) model \<Rightarrow> 'u callbacks \<Rightarrow> 'a tensor list \<Rightarrow> nat \<Rightarrow> nat \<Rightarrow> ndarray list list
     \<Rightarrow> ('u, 'a) world \<Rightarrow> (pyerr + ndarray list list) \<times> ('u, 'a) world" where
  "predict_steps M cb ins step 0 unconcatenated_outs w = (Inr unconcatenated_outs, w)"
| "predict_steps M cb ins step (Suc remaining) unconcatenated_outs w =
     (let batch_logs = [''batch'' \<mapsto> real step, ''size'' \<mapsto> 1];
          w1 = notify (on_predict_batch_begin cb step batch_logs) (Predict_batch_begin step) w;
          (batch_outs, h2) = predict_function M ins (handle w1);
          w2 = w1\<lparr>handle := h2, trace := trace w1 @ [Predict_step ins batch_outs]\<rparr>;
          w3 = notify (on_predict_batch_end cb step batch_logs)
                 (Predict_batch_end step 1 batch_outs) w2;
          outs1 = (if step = 0 then unconcatenated_outs @ replicate (length batch_outs) []
                   else unconcatenated_outs)
      in case update_outs (\<lambda>i out batch_out. out @ [batch_out]) 0 batch_outs outs1 of
           Inl e \<Rightarrow> (Inl e, w3)
         | Inr outs2 \<Rightarrow>
             if stop_predicting (handle w3) then (Inr outs2, w3)
             else predict_steps M cb ins (Suc step) remaining outs2 w3)"

text \<open>
  Lines 306 to 308: \<^verbatim>\<open>outs[i][start:start + size] = batch_out\<close> for every output of the
  batch, with \<^verbatim>\<open>start = batch_index * batch_size\<close>.
\<close>

fun write_outs :: "nat \<Rightarrow> nat \<Rightarrow> nat \<Rightarrow> ndarray list \<Rightarrow> ndarray list \<Rightarrow> pyerr + ndarray list" where
  "write_outs start bsize i [] outs = Inr outs"
| "write_outs start bsize i (batch_out # batch_outs) outs =
     (if i < length outs
      then (case set_slice (outs ! i) start (start + bsize) batch_out of
              Inl e \<Rightarrow> Inl e
            | Inr a \<Rightarrow> write_outs start bsize (Suc i) batch_outs (outs[i := a]))
      else Inl IndexError)"

text \<open>Lines 287 to 310: the batches of the generator from index \<open>batch_index\<close> on.\<close>

fun predict_batches ::
  "('u, 'a) model \<Rightarrow> 'u callbacks \<Rightarrow> nat list \<Rightarrow> nat \<Rightarrow> nat
     \<Rightarrow> nat \<Rightarrow> (pyerr + 'a tensor list) list \<Rightarrow> ndarray list \<Rightarrow> ('u, 'a) world
     \<Rightarrow> (pyerr + ndarray list) \<times> ('u, 'a) world" where
  "predict_batches M cb indices num_samples batch_size batch_index [] outs w = (Inr outs, w)"
| "predict_batches M cb indices num_samples batch_size batch_index (Inl e # items) outs w =
     (Inl e, w)"
| "predict_batches M cb indices num_samples batch_size batch_index (Inr batch_ins # items) outs w =
     (case get_batch_size batch_ins of
        Inl e \<Rightarrow> (Inl e, w)
      | Inr bsize \<Rightarrow>
          let batch_logs = [''batch'' \<mapsto> real batch_index, ''size'' \<mapsto> real bsize];
              w1 = notify (on_predict_batch_begin cb batch_index batch_logs)
                     (Predict_batch_begin batch_index) w
          in case densify indices batch_ins of
               Inl e \<Rightarrow> (Inl e, w1)
             | Inr dense \<Rightarrow>
                 let (batch_outs, h2) = predict_function M dense (handle w1);
                     w2 = w1\<lparr>handle := h2, trace := trace w1 @ [Predict_step dense batch_outs]\<rparr>;
                     w3 = notify (on_predict_batch_end cb batch_index batch_logs)
                            (Predict_batch_end batch_index bsize batch_outs) w2;
                     outs1 = (if batch_index = 0
                              then outs @ map (\<lambda>batch_out. np_zeros num_samples (tail batch_out))
                                            batch_outs
                              else outs)
                 in case write_outs (batch_index * batch_size) bsize 0 batch_outs outs1 of
                      Inl e \<Rightarrow> (Inl e, w3)
                    | Inr outs2 \<Rightarrow>
                        if stop_predicting (handle w3) then (Inr outs2, w3)
                        else predict_batches M cb indices num_samples batch_size
                               (Suc batch_index) items outs2 w3)"

definition predict_loop ::
  "'a check_num_samples \<Rightarrow> ('u, 'a) model \<Rightarrow> 'u callbacks \<Rightarrow> 'a tensor list
     \<Rightarrow> nat option \<Rightarrow> nat option \<Rightarrow> ('u, 'a) world
     \<Rightarrow> (pyerr + ndarray list) \<times> ('u, 'a) world" where
  "predict_loop check_num_samples M cb ins batch_size steps w =
     (case check_num_samples ins batch_size steps ''steps'' of
        Inl e \<Rightarrow> (Inl e, w)
      | Inr num_samples \<Rightarrow>
          let w1 = notify (set_model cb) Set_model w;
              w2 = notify (set_params cb) Set_params w1;
              w3 = w2\<lparr>handle := (handle w2)\<lparr>stop_predicting := False\<rparr>\<rparr>;
              indices = get_sparse_conversion_indices M True ins
          in case steps of
               Some s \<Rightarrow>
                 (case predict_steps M cb ins 0 s [] w3 of
                    (Inl e, w4) \<Rightarrow> (Inl e, w4)
                  | (Inr unconcatenated_outs, w4) \<Rightarrow>
                      (concatenate_all unconcatenated_outs, w4))
             | None \<Rightarrow>
                 (case (num_samples, batch_size) of
                    (Some n, Some b) \<Rightarrow>
                      predict_batches M cb indices n b 0
                        (generator_items (get_batch_generator ins n b No_shuffle [])) [] w3
                  | _ \<Rightarrow> (Inl (TypeError ''unsupported operand type: NoneType''), w3)))"

subsection \<open>The fit loop\<close>












subsection \<open>What a trace shows\<close>

text \<open>The batches evaluated in a trace, oldest first: each with its sample count and the
  outputs of its test step.\<close>

fun evaluated :: "'a event list \<Rightarrow> (nat \<times> real list) list" where
  "evaluated [] = []"
| "evaluated (Evaluate_batch_end i bsize outs # evs) = (bsize, outs) # evaluated evs"
| "evaluated (ev # evs) = evaluated evs"


text \<open>
  The state in which \<^verbatim>\<open>evaluate_loop\<close> enters its loop: the stateful metrics reset (for a
  model with metrics), the observers configured, \<^verbatim>\<open>stop_evaluating\<close> cleared.
\<close>

definition evaluate_entry :: "('u, 'a) model \<Rightarrow> 'u callbacks \<Rightarrow> ('u, 'a) world \<Rightarrow> ('u, 'a) world" where
  "evaluate_entry M cb w =
     (let w0 = (if has_metrics M then notify (reset_states M) Reset_states w else w);
          w2 = notify (set_params cb) Set_params (notify (set_model cb) Set_model w0)
      in w2\<lparr>handle := (handle w2)\<lparr>stop_evaluating := False\<rparr>\<rparr>)"



text \<open>
  Kinds of events: those of the batch loop of \<^verbatim>\<open>fit_loop\<close>, those of a run of
  \<^verbatim>\<open>evaluate_loop\<close>, and the batch-end notifications after which the loop read a set
  stop flag.
\<close>

fun is_batch_event :: "'a event \<Rightarrow> bool" where
  "is_batch_event (Fit_batch_begin i) = True"
| "is_batch_event (Train_step batch_ins batch_outs) = True"
| "is_batch_event (Fit_batch_end i stop) = True"
| "is_batch_event ev = False"

fun is_evaluation_event :: "'a event \<Rightarrow> bool" where
  "is_evaluation_event Reset_states = True"
| "is_evaluation_event Set_model = True"
| "is_evaluation_event Set_params = True"
| "is_evaluation_event (Evaluate_batch_begin i) = True"
| "is_evaluation_event (Test_step batch_ins batch_outs) = True"
| "is_evaluation_event (Evaluate_batch_end i bsize batch_outs) = True"
| "is_evaluation_event ev = False"

fun is_stop :: "'a event \<Rightarrow> bool" where
  "is_stop (Fit_batch_end i stop) = stop"
| "is_stop ev = False"

text \<open>
  No observer and no compute step that runs between the break out of the batch loop and
  the end of the epoch clears \<^verbatim>\<open>stop_training\<close> once it is set: the hooks of the validation
  run, the test step, the reset of the stateful metrics, and the epoch-end notification.
\<close>

definition never_clears_stop :: "('u, 'a) model \<Rightarrow> 'u callbacks \<Rightarrow> bool" where
  "never_clears_stop M cb =
     ((\<forall>h. stop_training h \<longrightarrow> stop_training (reset_states M h))
    \<and> (\<forall>h. stop_training h \<longrightarrow> stop_training (set_model cb h))
    \<and> (\<forall>h. stop_training h \<longrightarrow> stop_training (set_params cb h))
    \<and> (\<forall>i lg h. stop_training h \<longrightarrow> stop_training (on_evaluate_batch_begin cb i lg h))
    \<and> (\<forall>i lg h. stop_training h \<longrightarrow> stop_training (on_evaluate_batch_end cb i lg h))
    \<and> (\<forall>batch_ins h. stop_training h \<longrightarrow> stop_training (snd (test_function M batch_ins h)))
    \<and> (\<forall>epoch lg h. stop_training h \<longrightarrow> stop_training (on_epoch_end cb epoch lg h)))"

subsection \<open>Fixtures for the examples\<close>

text \<open>An observer list whose hooks do nothing.\<close>

definition silent :: "'u callbacks" where
  "silent = \<lparr>set_model = (\<lambda>h. h), set_params = (\<lambda>h. h),
     on_train_begin = (\<lambda>h. h), on_train_end = (\<lambda>h. h),
     on_epoch_begin = (\<lambda>epoch h. h), on_epoch_end = (\<lambda>epoch lg h. h),
     on_fit_batch_begin = (\<lambda>i lg h. h), on_fit_batch_end = (\<lambda>i lg h. h),
     on_evaluate_batch_begin = (\<lambda>i lg h. h), on_evaluate_batch_end = (\<lambda>i lg h. h),
     on_predict_batch_begin = (\<lambda>i lg h. h), on_predict_batch_end = (\<lambda>i lg h. h)\<rparr>"

text \<open>Observers that set a stop flag in the batch-end notification of batch \<open>k\<close>.\<close>

definition stop_evaluating_at :: "nat \<Rightarrow> 'u callbacks" where
  "stop_evaluating_at k =
     silent\<lparr>on_evaluate_batch_end := (\<lambda>i lg h. if i = k then h\<lparr>stop_evaluating := True\<rparr> else h)\<rparr>"

definition stop_training_at :: "nat \<Rightarrow> 'u callbacks" where
  "stop_training_at k =
     silent\<lparr>on_fit_batch_end := (\<lambda>i lg h. if i = k then h\<lparr>stop_training := True\<rparr> else h)\<rparr>"

text \<open>
  A model with the stateful metric \<^verbatim>\<open>acc\<close>, no sparse inputs, and compute steps that leave
  the handle as it is: \<open>f\<close> gives the outputs of the train and the test step, \<open>g\<close> those of
  the predict step.
\<close>

definition simple_model ::
  "('a tensor list \<Rightarrow> real list) \<Rightarrow> ('a tensor list \<Rightarrow> ndarray list) \<Rightarrow> ('u, 'a) model" where
  "simple_model f g = \<lparr>has_metrics = True, stateful_metric_names = [''acc''],
     reset_states = (\<lambda>h. h), get_sparse_conversion_indices = (\<lambda>only_input ins. []),
     train_function = (\<lambda>batch_ins h. (f batch_ins, h)),
     test_function = (\<lambda>batch_ins h. (f batch_ins, h)),
     predict_function = (\<lambda>batch_ins h. (g batch_ins, h))\<rparr>"

text \<open>The state before a run: no flag set, no event yet.\<close>

definition fresh :: "string list \<Rightarrow> (unit, 'a) world" where
  "fresh names = \<lparr>handle = \<lparr>stop_training = False, stop_evaluating = False,
                              stop_predicting = False, user = ()\<rparr>,
                  metrics_names = names, trace = []\<rparr>"

text \<open>
  A sample count for the examples: none in step mode, the leading dimension of the first
  member of the bundle in sample mode.
\<close>

definition first_dimension :: "'a check_num_samples" where
  "first_dimension ins batch_size steps steps_name =
     (case steps of
        Some s \<Rightarrow> Inr None
      | None \<Rightarrow>
          (case ins of
             [] \<Rightarrow> Inl (ValueError ''no input arrays'')
           | x # xs \<Rightarrow> (case shape0 x of Inl e \<Rightarrow> Inr None | Inr n \<Rightarrow> Inr (Some n))))"

text \<open>
  Three runs of the evaluate loop. Four steps that each return 5 for the loss and 5 for the
  stateful metric \<^verbatim>\<open>acc\<close>; the same run with an observer that sets the stop flag at the
  end of the second step; and a sample-based run over five samples in batches of three,
  whose test step returns 10 for the batch of three samples and 20 for the batch of two.
\<close>

definition four_steps_run :: "(pyerr + real list) \<times> (unit, nat) world" where
  "four_steps_run =
     evaluate_loop first_dimension (simple_model (\<lambda>batch_ins. [5, 5]) (\<lambda>batch_ins. []))
       silent [] None (Some 4) (fresh [''loss'', ''acc''])"

definition stopped_steps_run :: "(pyerr + real list) \<times> (unit, nat) world" where
  "stopped_steps_run =
     evaluate_loop first_dimension (simple_model (\<lambda>batch_ins. [5, 5]) (\<lambda>batch_ins. []))
       (stop_evaluating_at 1) [] None (Some 4) (fresh [''loss'', ''acc''])"

definition two_batches_run :: "(pyerr + real list) \<times> (unit, nat) world" where
  "two_batches_run =
     evaluate_loop first_dimension
       (simple_model (\<lambda>batch_ins. [if get_batch_size batch_ins = Inr 3 then 10 else 20])
          (\<lambda>batch_ins. []))
       silent [NdArray [1, 2, 3, 4, 5]] (Some 3) None (fresh [''loss''])"
section \<open>Properties of the batch generator\<close>

lemma length_shuffle_from: "length (shuffle_from i ds xs) = length xs"
  by (induction i ds xs rule: shuffle_from.induct) simp_all

lemma mset_shuffle_from: "i < length xs \<Longrightarrow> mset (shuffle_from i ds xs) = mset xs"
proof (induction i ds xs rule: shuffle_from.induct)
  case (3 i d ds xs)
  have j: "d mod Suc (Suc i) < length xs"
    using "3.prems" by (meson less_trans_Suc mod_less_divisor not_less_eq zero_less_Suc less_Suc_eq_le order_less_le_trans)
  have "mset (xs[Suc i := xs ! (d mod Suc (Suc i)), d mod Suc (Suc i) := xs ! Suc i]) = mset xs"
    using mset_swap [OF j "3.prems"] .
  moreover have "i < length (xs[Suc i := xs ! (d mod Suc (Suc i)), d mod Suc (Suc i) := xs ! Suc i])"
    using "3.prems" by simp
  ultimately show ?case using "3.IH" by simp
qed simp_all

lemma mset_random_shuffle: "mset (random_shuffle ds xs) = mset xs"
proof (cases xs)
  case Nil
  then show ?thesis by (simp add: random_shuffle_def)
next
  case (Cons a list)
  then show ?thesis by (simp add: random_shuffle_def mset_shuffle_from)
qed

lemma concat_slices:
  assumes "0 < b"
  shows "concat (map (\<lambda>i. take (min (length ia) ((i + 1) * b) - i * b) (drop (i * b) ia)) [0 ..< k])
         = take (k * b) ia"
proof (induction k)
  case 0
  show ?case by simp
next
  case (Suc k)
  have "take (k * b) ia @ take (min (length ia) ((k + 1) * b) - k * b) (drop (k * b) ia)
        = take (Suc k * b) ia"
  proof (cases "(k + 1) * b \<le> length ia")
    case True
    then have "min (length ia) ((k + 1) * b) - k * b = b" by simp
    moreover have "take (Suc k * b) ia = take (k * b + b) ia" by (simp add: add.commute)
    ultimately show ?thesis by (simp only: take_add)
  next
    case False
    then have "take (min (length ia) ((k + 1) * b) - k * b) (drop (k * b) ia) = drop (k * b) ia"
      by simp
    moreover have "take (Suc k * b) ia = ia" using False by simp
    ultimately show ?thesis by simp
  qed
  with Suc show ?case by simp
qed

lemma ceil_div_nat:
  assumes "0 < (b::nat)"
  shows "nat \<lceil>real n / real b\<rceil> = (n + b - 1) div b"
proof -
  define q where "q = (n + b - 1) div b"
  have m: "q * b + (n + b - 1) mod b = n + b - 1"
    unfolding q_def by simp
  have "(n + b - 1) mod b < b" using assms by simp
  with m have lo: "n \<le> q * b" and hi: "q * b < n + b" using assms by linarith+
  have "real n \<le> real (q * b)" using lo by (simp only: of_nat_le_iff)
  then have 1: "real n / real b \<le> real q" using assms by (simp add: divide_le_eq)
  have "real (q * b) < real (n + b)" using hi by (simp only: of_nat_less_iff)
  then have "(real q - 1) * real b < real n" by (simp add: algebra_simps)
  then have 2: "real q - 1 < real n / real b" using assms by (simp add: less_divide_eq)
  have "\<lceil>real n / real b\<rceil> = int q"
    by (rule ceiling_unique) (use 1 2 in simp_all)
  then show ?thesis by (simp add: q_def)
qed

lemma concat_reshape: "concat (reshape m b xs) = take (m * b) xs"
  by (induction m b xs rule: reshape.induct) (simp_all add: take_add add.commute)

lemma mset_concat_cong: "mset xss = mset yss \<Longrightarrow> mset (concat xss) = mset (concat yss)"
  by (metis mset_concat mset_map sum_mset_sum_list)

lemma index_array_of_perm:
  assumes "0 < b"
  shows "\<exists>ia. index_array_of n b sh ds = Inr ia \<and> mset ia = mset [0 ..< n]"
proof (cases sh)
  case No_shuffle
  then show ?thesis by (simp add: index_array_of_def)
next
  case Shuffle_all
  then show ?thesis by (simp add: index_array_of_def mset_random_shuffle)
next
  case Shuffle_batch
  let ?m = "n div b"
  let ?xs = "[0 ..< n]"
  have "mset (concat (random_shuffle ds (reshape ?m b (take (?m * b) ?xs))))
        = mset (concat (reshape ?m b (take (?m * b) ?xs)))"
    by (rule mset_concat_cong) (rule mset_random_shuffle)
  also have "\<dots> = mset (take (?m * b) ?xs)"
    by (simp only: concat_reshape take_take min.idem)
  finally have "mset (concat (random_shuffle ds (reshape ?m b (take (?m * b) ?xs))) @ drop (?m * b) ?xs)
        = mset (take (?m * b) ?xs @ drop (?m * b) ?xs)"
    by (simp only: mset_append)
  then show ?thesis using Shuffle_batch assms
    by (simp add: index_array_of_def batch_shuffle_def Let_def del: take_upt drop_upt)
qed

lemma yield_batches_ok:
  assumes "\<forall>batch \<in> set batches. \<exists>y. prepare_batch ins (batch_ids_of ia batch) = Inr y"
  shows "\<exists>ys. yield_batches ins ia batches = (ys, None)
            \<and> map Inr ys = map (\<lambda>batch. prepare_batch ins (batch_ids_of ia batch)) batches"
  using assms
proof (induction batches)
  case Nil
  show ?case by simp
next
  case (Cons batch batches)
  from Cons.prems obtain y where y: "prepare_batch ins (batch_ids_of ia batch) = Inr y" by auto
  from Cons obtain ys where ys: "yield_batches ins ia batches = (ys, None)"
    "map Inr ys = map (\<lambda>batch. prepare_batch ins (batch_ids_of ia batch)) batches" by auto
  show ?case using y ys by simp
qed

lemma concat_batch_ids:
  assumes "0 < b" "length ia = n"
  shows "concat (map (batch_ids_of ia)
           (map (\<lambda>i. (i * b, min n ((i + 1) * b))) [0 ..< (n + b - 1) div b])) = ia"
proof -
  have "n \<le> (n + b - 1) div b * b"
  proof -
    have "(n + b - 1) div b * b + (n + b - 1) mod b = n + b - 1" by simp
    moreover have "(n + b - 1) mod b < b" using assms by simp
    ultimately show ?thesis using assms by linarith
  qed
  then have "take ((n + b - 1) div b * b) ia = ia" using assms by simp
  then show ?thesis
    using concat_slices [OF assms(1), of ia "(n + b - 1) div b"] assms(2)
    by (simp add: batch_ids_of_def comp_def)
qed

lemma length_slice_arrays: "slice_arrays xs ids = Inr ys \<Longrightarrow> length ys = length xs"
  by (induction xs arbitrary: ys) (auto split: sum.splits)

lemma prepare_batch_float:
  assumes "ins \<noteq> []" "last ins = PyFloat f" "prepare_batch ins ids = Inr y"
  shows "length y = length ins \<and> last y = PyFloat f
         \<and> slice_arrays (butlast ins) ids = Inr (butlast y)"
proof -
  from assms obtain b where b: "slice_arrays (butlast ins) ids = Inr b" "y = b @ [PyFloat f]"
    by (auto simp: prepare_batch_def split: sum.splits pyerr.splits)
  have "length b = length ins - 1" using length_slice_arrays [OF b(1)] by simp
  with assms(1) b show ?thesis by simp
qed

lemma yield_batches_member:
  "y \<in> set (fst (yield_batches ins ia batches)) \<Longrightarrow>
     \<exists>batch \<in> set batches. prepare_batch ins (batch_ids_of ia batch) = Inr y"
  by (induction batches arbitrary: y) (auto split: sum.splits prod.splits)

lemma generator_member:
  assumes "y \<in> set (fst (get_batch_generator ins n b sh ds))"
  shows "\<exists>ids. prepare_batch ins ids = Inr y"
proof -
  from assms obtain ia batches where "y \<in> set (fst (yield_batches ins ia batches))"
    by (auto simp: get_batch_generator_def split: sum.splits)
  from yield_batches_member [OF this] show ?thesis by blast
qed

text \<open>
  C8. When the last member of the input bundle is a float, every bundle the generator
  yields has as many members as the input bundle, ends with that float unchanged, and
  its other members are the slice of the input bundle without its last member.
\<close>

theorem flag_not_sliced:
  assumes "ins \<noteq> []" and "last ins = PyFloat f"
      and "y \<in> set (fst (get_batch_generator ins num_samples batch_size shuffle ds))"
  shows "length y = length ins \<and> last y = PyFloat f
         \<and> (\<exists>ids. slice_arrays (butlast ins) ids = Inr (butlast y))"
proof -
  from generator_member [OF assms(3)] obtain ids where "prepare_batch ins ids = Inr y" ..
  from prepare_batch_float [OF assms(1,2) this] show ?thesis by blast
qed

lemma yield_batches_first_error:
  assumes "k < length batches"
      and "\<forall>j<k. \<exists>y. prepare_batch ins (batch_ids_of ia (batches ! j)) = Inr y"
      and "prepare_batch ins (batch_ids_of ia (batches ! k)) = Inl e"
  shows "\<exists>ys. yield_batches ins ia batches = (ys, Some e) \<and> length ys = k"
  using assms
proof (induction batches arbitrary: k)
  case Nil
  then show ?case by simp
next
  case (Cons batch batches)
  show ?case
  proof (cases k)
    case 0
    with Cons.prems show ?thesis by simp
  next
    case (Suc k')
    from Cons.prems(2) Suc obtain y where y: "prepare_batch ins (batch_ids_of ia batch) = Inr y"
      by fastforce
    have "\<forall>j<k'. \<exists>y. prepare_batch ins (batch_ids_of ia (batches ! j)) = Inr y"
      using Cons.prems(2) Suc by fastforce
    with Cons.IH [of k'] Cons.prems Suc obtain ys where
      "yield_batches ins ia batches = (ys, Some e)" "length ys = k'" by auto
    with y Suc show ?thesis by simp
  qed
qed

lemma prepare_batch_type_error:
  assumes "ins \<noteq> []"
      and "slice_arrays (if is_float (last ins) then butlast ins else ins) ids = Inl (TypeError m)"
  shows "prepare_batch ins ids = Inl (TypeError batch_error_message)"
  using assms by (simp add: prepare_batch_def split: if_splits)

lemma reshape_upt:
  "reshape m b [s ..< s + m * b] = map (\<lambda>k. [s + k * b ..< s + (k + 1) * b]) [0 ..< m]"
proof (induction m arbitrary: s)
  case 0
  show ?case by simp
next
  case (Suc m)
  have "reshape m b [s + b ..< s + b + m * b]
        = map (\<lambda>k. [s + b + k * b ..< s + b + (k + 1) * b]) [0 ..< m]"
    using Suc [of "s + b"] .
  moreover have "map (\<lambda>k. [s + k * b ..< s + (k + 1) * b]) [0 ..< Suc m]
        = [s ..< s + b] # map (\<lambda>k. [s + b + k * b ..< s + b + (k + 1) * b]) [0 ..< m]"
    by (simp add: map_upt_Suc add.assoc del: upt_Suc)
  moreover have "take b [s ..< s + Suc m * b] = [s ..< s + b]" by (simp add: take_upt)
  moreover have "drop b [s ..< s + Suc m * b] = [s + b ..< s + b + m * b]"
    by (simp add: drop_upt ac_simps)
  ultimately show ?case by (simp del: upt_Suc take_upt drop_upt)
qed

lemma nth_block:
  "\<forall>x \<in> set blocks. length x = b \<Longrightarrow> j < length blocks \<Longrightarrow>
     take b (drop (j * b) (concat blocks @ rest)) = blocks ! j"
proof (induction blocks arbitrary: j)
  case Nil
  then show ?case by simp
next
  case (Cons x blocks)
  show ?case
  proof (cases j)
    case 0
    with Cons.prems show ?thesis by simp
  next
    case (Suc j')
    with Cons show ?thesis by simp
  qed
qed

lemma length_concat_blocks:
  "\<forall>x \<in> set blocks. length x = b \<Longrightarrow> length (concat blocks) = length blocks * b"
  by (induction blocks) simp_all

lemma block_index_array:
  assumes "0 < batch_size"
  shows "\<exists>blocks index_array batches.
           index_array_of num_samples batch_size Shuffle_batch ds = Inr index_array
         \<and> index_array = concat blocks
              @ [num_samples div batch_size * batch_size ..< num_samples]
         \<and> mset blocks = mset (map (\<lambda>k. [k * batch_size ..< (k + 1) * batch_size])
                                   [0 ..< num_samples div batch_size])
         \<and> make_batches num_samples batch_size = Inr batches
         \<and> (\<forall>j < num_samples div batch_size.
               batch_ids_of index_array (batches ! j) = blocks ! j)"
proof -
  let ?n = num_samples and ?b = batch_size
  let ?m = "?n div ?b"
  let ?orig = "map (\<lambda>k. [k * ?b ..< (k + 1) * ?b]) [0 ..< ?m]"
  let ?blocks = "random_shuffle ds ?orig"
  let ?rest = "[?m * ?b ..< ?n]"
  let ?ia = "concat ?blocks @ ?rest"
  let ?batches = "map (\<lambda>i. (i * ?b, min ?n ((i + 1) * ?b))) [0 ..< (?n + ?b - 1) div ?b]"
  have le: "?m * ?b \<le> ?n" by simp
  have "take (?m * ?b) [0 ..< ?n] = [0 ..< 0 + ?m * ?b]" using le by (simp add: take_upt)
  then have "reshape ?m ?b (take (?m * ?b) [0 ..< ?n]) = ?orig"
    using reshape_upt [of ?m ?b 0] by simp
  moreover have "drop (?m * ?b) [0 ..< ?n] = ?rest" by (simp add: drop_upt)
  ultimately have ia: "index_array_of ?n ?b Shuffle_batch ds = Inr ?ia"
    using assms by (simp add: index_array_of_def batch_shuffle_def Let_def del: take_upt drop_upt)
  have ms: "mset ?blocks = mset ?orig" by (rule mset_random_shuffle)
  have mb: "make_batches ?n ?b = Inr ?batches" using assms by (simp add: make_batches_def)
  have all_b: "\<forall>x \<in> set ?blocks. length x = ?b"
  proof -
    have "set ?blocks = set ?orig" using ms by (rule mset_eq_setD)
    then show ?thesis by auto
  qed
  have len: "length ?blocks = ?m" using mset_eq_length [OF ms] by simp
  have "\<forall>j < ?m. batch_ids_of ?ia (?batches ! j) = ?blocks ! j"
  proof (intro allI impI)
    fix j assume j: "j < ?m"
    then have "j + 1 \<le> ?m" by simp
    then have "(j + 1) * ?b \<le> ?m * ?b" by (rule mult_le_mono1)
    from this le have b1: "(j + 1) * ?b \<le> ?n" by (rule order_trans)
    then have "(j + 1) * ?b \<le> ?n + ?b - 1" using assms by linarith
    then have "(j + 1) * ?b div ?b \<le> (?n + ?b - 1) div ?b" by (rule div_le_mono)
    then have "j < (?n + ?b - 1) div ?b" using assms by simp
    then have "?batches ! j = (j * ?b, min ?n ((j + 1) * ?b))" by simp
    then have "batch_ids_of ?ia (?batches ! j) = take ?b (drop (j * ?b) ?ia)"
      using b1 by (simp add: batch_ids_of_def min_absorb2)
    also have "\<dots> = ?blocks ! j"
    proof (rule nth_block [OF all_b])
      show "j < length ?blocks" using j by (simp only: len)
    qed
    finally show "batch_ids_of ?ia (?batches ! j) = ?blocks ! j" .
  qed
  with ia ms mb show ?thesis by blast
qed

lemma slice_arrays_nth:
  "slice_arrays xs ids = Inr zs \<Longrightarrow> j < length xs \<Longrightarrow> getitem ids (xs ! j) = Inr (zs ! j)"
proof (induction xs arbitrary: zs j)
  case Nil
  then show ?case by simp
next
  case (Cons x xs)
  then show ?case by (cases j) (auto split: sum.splits)
qed

lemma getitem_array:
  "getitem ids (NdArray rs) = Inr z \<Longrightarrow> z = NdArray (map ((!) rs) ids)"
  by (simp split: if_splits)

lemma prepare_batch_sliced:
  assumes "ins \<noteq> []"
      and "slice_arrays (if is_float (last ins) then butlast ins else ins) ids = Inr z"
  shows "prepare_batch ins ids = Inr (if is_float (last ins) then z @ [last ins] else z)"
  using assms by (simp add: prepare_batch_def split: if_splits)

lemma sliced_rows:
  assumes "ins \<noteq> []"
      and s: "slice_arrays (if is_float (last ins) then butlast ins else ins) ids = Inr z"
      and j: "j < length ins" and a: "ins ! j = NdArray rs"
  shows "(if is_float (last ins) then z @ [last ins] else z) ! j = NdArray (map ((!) rs) ids)"
proof (cases "is_float (last ins)")
  case False
  with s have s': "slice_arrays ins ids = Inr z" by simp
  from slice_arrays_nth [OF s' j] a have "getitem ids (NdArray rs) = Inr (z ! j)" by simp
  from getitem_array [OF this] False show ?thesis by simp
next
  case True
  with s have s': "slice_arrays (butlast ins) ids = Inr z" by simp
  have "j \<noteq> length ins - 1"
  proof
    assume "j = length ins - 1"
    with assms(1) have "ins ! j = last ins" by (simp add: last_conv_nth)
    with a True show False by simp
  qed
  with j have j': "j < length (butlast ins)" by simp
  have lz: "length z = length (butlast ins)" using length_slice_arrays [OF s'] .
  from slice_arrays_nth [OF s' j'] a j' have "getitem ids (NdArray rs) = Inr (z ! j)"
    by (simp add: nth_butlast)
  from getitem_array [OF this] True j' lz show ?thesis by (simp add: nth_append)
qed

lemma yield_batches_sliced:
  assumes "ins \<noteq> []"
      and "\<forall>batch \<in> set batches.
             \<exists>z. slice_arrays (if is_float (last ins) then butlast ins else ins)
                    (batch_ids_of ia batch) = Inr z"
  shows "\<exists>ys. yield_batches ins ia batches = (ys, None) \<and> length ys = length batches
         \<and> (\<forall>k < length batches.
               slice_arrays (if is_float (last ins) then butlast ins else ins)
                 (batch_ids_of ia (batches ! k))
               = Inr (if is_float (last ins) then butlast (ys ! k) else ys ! k)
             \<and> (is_float (last ins) \<longrightarrow> last (ys ! k) = last ins)
             \<and> (\<forall>j rs. j < length ins \<and> ins ! j = NdArray rs \<longrightarrow>
                    ys ! k ! j = NdArray (map ((!) rs) (batch_ids_of ia (batches ! k)))))"
  using assms(2)
proof (induction batches)
  case Nil
  show ?case by simp
next
  case (Cons batch batches)
  let ?part = "if is_float (last ins) then butlast ins else ins"
  from Cons.prems obtain z where z: "slice_arrays ?part (batch_ids_of ia batch) = Inr z" by auto
  define y where "y = (if is_float (last ins) then z @ [last ins] else z)"
  have y: "prepare_batch ins (batch_ids_of ia batch) = Inr y"
    unfolding y_def using prepare_batch_sliced [OF assms(1) z] .
  from Cons obtain ys where ys: "yield_batches ins ia batches = (ys, None)"
    "length ys = length batches"
    "\<forall>k < length batches.
        slice_arrays ?part (batch_ids_of ia (batches ! k))
          = Inr (if is_float (last ins) then butlast (ys ! k) else ys ! k)
      \<and> (is_float (last ins) \<longrightarrow> last (ys ! k) = last ins)
      \<and> (\<forall>j rs. j < length ins \<and> ins ! j = NdArray rs \<longrightarrow>
             ys ! k ! j = NdArray (map ((!) rs) (batch_ids_of ia (batches ! k))))"
    by auto
  have g: "yield_batches ins ia (batch # batches) = (y # ys, None)" using y ys(1) by simp
  have head: "slice_arrays ?part (batch_ids_of ia batch)
                = Inr (if is_float (last ins) then butlast y else y)
            \<and> (is_float (last ins) \<longrightarrow> last y = last ins)
            \<and> (\<forall>j rs. j < length ins \<and> ins ! j = NdArray rs \<longrightarrow>
                   y ! j = NdArray (map ((!) rs) (batch_ids_of ia batch)))"
    unfolding y_def using z sliced_rows [OF assms(1) z] by auto
  have "\<forall>k < length (batch # batches).
        slice_arrays ?part (batch_ids_of ia ((batch # batches) ! k))
          = Inr (if is_float (last ins) then butlast ((y # ys) ! k) else (y # ys) ! k)
      \<and> (is_float (last ins) \<longrightarrow> last ((y # ys) ! k) = last ins)
      \<and> (\<forall>j rs. j < length ins \<and> ins ! j = NdArray rs \<longrightarrow>
             (y # ys) ! k ! j
               = NdArray (map ((!) rs) (batch_ids_of ia ((batch # batches) ! k))))"
  proof (intro allI impI)
    fix k assume k: "k < length (batch # batches)"
    show "slice_arrays ?part (batch_ids_of ia ((batch # batches) ! k))
          = Inr (if is_float (last ins) then butlast ((y # ys) ! k) else (y # ys) ! k)
      \<and> (is_float (last ins) \<longrightarrow> last ((y # ys) ! k) = last ins)
      \<and> (\<forall>j rs. j < length ins \<and> ins ! j = NdArray rs \<longrightarrow>
             (y # ys) ! k ! j
               = NdArray (map ((!) rs) (batch_ids_of ia ((batch # batches) ! k))))"
    proof (cases k)
      case 0
      with head show ?thesis by simp
    next
      case (Suc k')
      with k ys(3) show ?thesis by simp
    qed
  qed
  with g ys(2) show ?case by (intro exI [of _ "y # ys"]) simp
qed

lemma make_batches_Inr:
  assumes "make_batches n b = Inr batches"
  shows "0 < b" and "batches = map (\<lambda>i. (i * b, min n ((i + 1) * b))) [0 ..< (n + b - 1) div b]"
  using assms by (auto simp: make_batches_def split: if_splits)

text \<open>
  C1. Let \<open>index_array\<close> be the index array of the call and \<open>batches\<close> the ranges of
  \<^verbatim>\<open>make_batches\<close> (so the batch size is positive), and let the slicing of the bundle
  (without a trailing float) succeed on the index list of every batch. Then the generator
  ends without an exception after yielding exactly \<open>\<lceil>num_samples / batch_size\<rceil>\<close>
  bundles, one for each batch; the index lists of the batches together hold every index
  of \<open>[0, num_samples)\<close> exactly once; and bundle \<open>k\<close> is the slice of the input bundle by
  the index list of batch \<open>k\<close>: each member that is a numpy array holds exactly the rows
  of that index list, in its order. This holds in every shuffle mode and for all random
  draws; the bound \<open>batch_size \<le> num_samples\<close> is not needed.
\<close>

theorem generator_partition:
  assumes "ins \<noteq> []"
      and "index_array_of num_samples batch_size shuffle ds = Inr index_array"
      and "make_batches num_samples batch_size = Inr batches"
      and "\<forall>batch \<in> set batches.
             \<exists>z. slice_arrays (if is_float (last ins) then butlast ins else ins)
                    (batch_ids_of index_array batch) = Inr z"
  shows "\<exists>ys. get_batch_generator ins num_samples batch_size shuffle ds = (ys, None)
         \<and> length ys = nat \<lceil>real num_samples / real batch_size\<rceil>
         \<and> length batches = length ys
         \<and> mset (concat (map (batch_ids_of index_array) batches)) = mset [0 ..< num_samples]
         \<and> (\<forall>k < length ys.
               slice_arrays (if is_float (last ins) then butlast ins else ins)
                 (batch_ids_of index_array (batches ! k))
               = Inr (if is_float (last ins) then butlast (ys ! k) else ys ! k)
             \<and> (\<forall>j rs. j < length ins \<and> ins ! j = NdArray rs \<longrightarrow>
                    ys ! k ! j
                      = NdArray (map ((!) rs) (batch_ids_of index_array (batches ! k)))))"
proof -
  let ?n = num_samples and ?b = batch_size
  have b: "0 < ?b" using make_batches_Inr(1) [OF assms(3)] .
  have bs: "batches = map (\<lambda>i. (i * ?b, min ?n ((i + 1) * ?b))) [0 ..< (?n + ?b - 1) div ?b]"
    using make_batches_Inr(2) [OF assms(3)] .
  from index_array_of_perm [OF b, of ?n shuffle ds] assms(2)
  have perm: "mset index_array = mset [0 ..< ?n]" by simp
  have len: "length index_array = ?n"
    using perm by (metis length_upt mset_eq_length minus_nat.diff_0)
  from yield_batches_sliced [OF assms(1,4)] obtain ys where
    ys: "yield_batches ins index_array batches = (ys, None)" "length ys = length batches"
    and each: "\<forall>k < length batches.
               slice_arrays (if is_float (last ins) then butlast ins else ins)
                 (batch_ids_of index_array (batches ! k))
               = Inr (if is_float (last ins) then butlast (ys ! k) else ys ! k)
             \<and> (is_float (last ins) \<longrightarrow> last (ys ! k) = last ins)
             \<and> (\<forall>j rs. j < length ins \<and> ins ! j = NdArray rs \<longrightarrow>
                    ys ! k ! j
                      = NdArray (map ((!) rs) (batch_ids_of index_array (batches ! k))))"
    by blast
  have g: "get_batch_generator ins ?n ?b shuffle ds = (ys, None)"
    using assms(2,3) ys(1) by (simp add: get_batch_generator_def)
  have l: "length ys = nat \<lceil>real ?n / real ?b\<rceil>"
    using ys(2) bs ceil_div_nat [OF b, of ?n] by simp
  have "concat (map (batch_ids_of index_array) batches) = index_array"
    unfolding bs using concat_batch_ids [OF b len] .
  then have m: "mset (concat (map (batch_ids_of index_array) batches)) = mset [0 ..< ?n]"
    using perm by simp
  from g l ys(2) m each show ?thesis by auto
qed

text \<open>
  C7. If the slicing of the bundle (without a trailing float) by the index list of batch
  \<open>k\<close> raises a TypeError, and the batches before it were prepared, then the generator
  yields those \<open>k\<close> bundles and ends with a TypeError whose message is
  \<^verbatim>\<open>TypeError while preparing batch. If using HDF5 input data, pass shuffle="batch".\<close>
  The failed batch is not tried again and nothing follows it.
\<close>

theorem slicing_type_error:
  assumes "ins \<noteq> []"
      and "index_array_of num_samples batch_size shuffle ds = Inr index_array"
      and "make_batches num_samples batch_size = Inr batches"
      and "k < length batches"
      and "\<forall>j<k. \<exists>y. prepare_batch ins (batch_ids_of index_array (batches ! j)) = Inr y"
      and "slice_arrays (if is_float (last ins) then butlast ins else ins)
             (batch_ids_of index_array (batches ! k)) = Inl (TypeError m)"
  shows "\<exists>ys. get_batch_generator ins num_samples batch_size shuffle ds
                = (ys, Some (TypeError
                     (''TypeError while preparing batch. If using HDF5 input data, pass shuffle=''
                        @ [CHR 0x22] @ ''batch'' @ [CHR 0x22] @ ''.'')))
            \<and> length ys = k"
proof -
  have "prepare_batch ins (batch_ids_of index_array (batches ! k))
        = Inl (TypeError batch_error_message)"
    using prepare_batch_type_error [OF assms(1,6)] .
  from yield_batches_first_error [OF assms(4,5) this] show ?thesis
    using assms(2,3) by (simp add: get_batch_generator_def batch_error_message_def)
qed

text \<open>
  C9. In shuffle mode \<^verbatim>\<open>'batch'\<close>, when the slicing succeeds on every batch, there is a
  permutation \<open>blocks\<close> of the whole blocks \<open>[k * batch_size, (k + 1) * batch_size)\<close>, each
  in increasing order, such that the index array is the concatenation of \<open>blocks\<close>
  followed by the indices left over, and the \<open>j\<close>-th bundle the generator yields is the
  slice of the input bundle by block \<open>j\<close>: each member that is a numpy array holds the
  rows of that block, in the block's order.
\<close>

theorem batch_shuffle_blocks:
  assumes "ins \<noteq> []"
      and "index_array_of num_samples batch_size Shuffle_batch ds = Inr index_array"
      and "make_batches num_samples batch_size = Inr batches"
      and "\<forall>batch \<in> set batches.
             \<exists>z. slice_arrays (if is_float (last ins) then butlast ins else ins)
                    (batch_ids_of index_array batch) = Inr z"
  shows "\<exists>blocks ys.
           mset blocks = mset (map (\<lambda>k. [k * batch_size ..< (k + 1) * batch_size])
                                   [0 ..< num_samples div batch_size])
         \<and> index_array = concat blocks
              @ [num_samples div batch_size * batch_size ..< num_samples]
         \<and> get_batch_generator ins num_samples batch_size Shuffle_batch ds = (ys, None)
         \<and> num_samples div batch_size \<le> length ys
         \<and> (\<forall>j < num_samples div batch_size.
               slice_arrays (if is_float (last ins) then butlast ins else ins) (blocks ! j)
               = Inr (if is_float (last ins) then butlast (ys ! j) else ys ! j)
             \<and> (\<forall>i rs. i < length ins \<and> ins ! i = NdArray rs \<longrightarrow>
                    ys ! j ! i = NdArray (map ((!) rs) (blocks ! j))))"
proof -
  let ?n = num_samples and ?b = batch_size
  have b: "0 < ?b" using make_batches_Inr(1) [OF assms(3)] .
  from block_index_array [OF b, of ?n ds] assms(2,3) obtain blocks where
    blocks: "mset blocks = mset (map (\<lambda>k. [k * ?b ..< (k + 1) * ?b]) [0 ..< ?n div ?b])"
      "index_array = concat blocks @ [?n div ?b * ?b ..< ?n]"
      "\<forall>j < ?n div ?b. batch_ids_of index_array (batches ! j) = blocks ! j"
    by auto
  from yield_batches_sliced [OF assms(1,4)] obtain ys where
    ys: "yield_batches ins index_array batches = (ys, None)" "length ys = length batches"
    and each: "\<forall>k < length batches.
               slice_arrays (if is_float (last ins) then butlast ins else ins)
                 (batch_ids_of index_array (batches ! k))
               = Inr (if is_float (last ins) then butlast (ys ! k) else ys ! k)
             \<and> (is_float (last ins) \<longrightarrow> last (ys ! k) = last ins)
             \<and> (\<forall>j rs. j < length ins \<and> ins ! j = NdArray rs \<longrightarrow>
                    ys ! k ! j
                      = NdArray (map ((!) rs) (batch_ids_of index_array (batches ! k))))"
    by blast
  have g: "get_batch_generator ins ?n ?b Shuffle_batch ds = (ys, None)"
    using assms(2,3) ys(1) by (simp add: get_batch_generator_def)
  have "length batches = (?n + ?b - 1) div ?b"
    using make_batches_Inr(2) [OF assms(3)] by simp
  moreover have "?n div ?b \<le> (?n + ?b - 1) div ?b" by (rule div_le_mono) (use b in linarith)
  ultimately have le: "?n div ?b \<le> length batches" by simp
  have "\<forall>j < ?n div ?b.
               slice_arrays (if is_float (last ins) then butlast ins else ins) (blocks ! j)
               = Inr (if is_float (last ins) then butlast (ys ! j) else ys ! j)
             \<and> (\<forall>i rs. i < length ins \<and> ins ! i = NdArray rs \<longrightarrow>
                    ys ! j ! i = NdArray (map ((!) rs) (blocks ! j)))"
  proof (intro allI impI)
    fix j assume j: "j < ?n div ?b"
    with le have "j < length batches" by simp
    with each blocks(3) j show
      "slice_arrays (if is_float (last ins) then butlast ins else ins) (blocks ! j)
               = Inr (if is_float (last ins) then butlast (ys ! j) else ys ! j)
             \<and> (\<forall>i rs. i < length ins \<and> ins ! i = NdArray rs \<longrightarrow>
                    ys ! j ! i = NdArray (map ((!) rs) (blocks ! j)))"
      by (metis (no_types, lifting))
  qed
  with blocks(1,2) g le ys(2) show ?thesis by auto
qed

subsection \<open>Examples of the batch generator\<close>

lemma generator_example:
  "get_batch_generator [NdArray [10, 20, 30, 40, 50::nat]] 5 2 No_shuffle []
   = ([[NdArray [10, 20]], [NdArray [30, 40]], [NdArray [50]]], None)"
  by (simp add: get_batch_generator_def index_array_of_def make_batches_def prepare_batch_def
      batch_ids_of_def upt_rec)

lemma generator_flag_example:
  "get_batch_generator [NdArray [10, 20, 30::nat], PyFloat 1] 3 2 No_shuffle []
   = ([[NdArray [10, 20], PyFloat 1], [NdArray [30], PyFloat 1]], None)"
  by (simp add: get_batch_generator_def index_array_of_def make_batches_def prepare_batch_def
      batch_ids_of_def upt_rec)

theorem flag_not_sliced_witness:
  "length [NdArray [10, 20::nat], PyFloat 1] = length [NdArray [10, 20, 30::nat], PyFloat 1]
   \<and> last [NdArray [10, 20::nat], PyFloat 1] = PyFloat 1
   \<and> (\<exists>ids. slice_arrays (butlast [NdArray [10, 20, 30::nat], PyFloat 1]) ids
              = Inr (butlast [NdArray [10, 20::nat], PyFloat 1]))"
proof -
  have 1: "[NdArray [10, 20, 30::nat], PyFloat 1] \<noteq> []" by simp
  have 2: "last [NdArray [10, 20, 30::nat], PyFloat 1] = PyFloat 1" by simp
  have 3: "[NdArray [10, 20::nat], PyFloat 1]
           \<in> set (fst (get_batch_generator [NdArray [10, 20, 30::nat], PyFloat 1] 3 2 No_shuffle []))"
    by (simp add: generator_flag_example)
  show ?thesis using flag_not_sliced [OF 1 2 3] .
qed

lemma shuffled_index_array_example:
  "index_array_of 5 2 Shuffle_all [7, 3, 2, 9] = Inr [0, 1, 4, 3, 2]"
  by code_simp

lemma batch_shuffle_example:
  "index_array_of 7 2 Shuffle_batch [7, 3, 2, 9] = Inr [0, 1, 4, 5, 2, 3, 6]"
  by code_simp

lemma make_batches_example: "make_batches 7 2 = Inr [(0, 2), (2, 4), (4, 6), (6, 7)]"
  by (simp add: make_batches_def upt_rec)

text \<open>
  A batch size of 0 satisfies \<open>batch_size \<le> num_samples\<close>, and the generator then raises
  ZeroDivisionError without yielding a bundle.
\<close>

theorem generator_zero_batch_size:
  "(0::nat) \<le> 3
   \<and> get_batch_generator [NdArray [10, 20, 30::nat]] 3 0 No_shuffle []
       = ([], Some ZeroDivisionError)"
  by (simp add: get_batch_generator_def index_array_of_def make_batches_def)

text \<open>
  The theorem of C1 on a dataset that answers increasing index lists only, in block-shuffle
  mode: four bundles, every index once.
\<close>

theorem generator_partition_witness:
  "\<exists>ys. get_batch_generator [increasing_only [10, 20, 30, 40, 50, 60, 70::nat]] 7 2
            Shuffle_batch [7, 3, 2, 9] = (ys, None)
     \<and> length ys = nat \<lceil>real 7 / real 2\<rceil>
     \<and> length ([(0, 2), (2, 4), (4, 6), (6, 7)] :: (nat \<times> nat) list) = length ys
     \<and> mset (concat (map (batch_ids_of [0, 1, 4, 5, 2, 3, 6])
                         [(0, 2), (2, 4), (4, 6), (6, 7)])) = mset [0 ..< 7]
     \<and> (\<forall>k < length ys.
           slice_arrays
             (if is_float (last [increasing_only [10, 20, 30, 40, 50, 60, 70::nat]])
              then butlast [increasing_only [10, 20, 30, 40, 50, 60, 70]]
              else [increasing_only [10, 20, 30, 40, 50, 60, 70]])
             (batch_ids_of [0, 1, 4, 5, 2, 3, 6] ([(0, 2), (2, 4), (4, 6), (6, 7)] ! k))
           = Inr (if is_float (last [increasing_only [10, 20, 30, 40, 50, 60, 70::nat]])
                  then butlast (ys ! k) else ys ! k)
         \<and> (\<forall>j rs. j < length [increasing_only [10, 20, 30, 40, 50, 60, 70::nat]]
                    \<and> [increasing_only [10, 20, 30, 40, 50, 60, 70]] ! j = NdArray rs \<longrightarrow>
                ys ! k ! j
                  = NdArray (map ((!) rs)
                      (batch_ids_of [0, 1, 4, 5, 2, 3, 6]
                         ([(0, 2), (2, 4), (4, 6), (6, 7)] ! k)))))"
proof -
  let ?ins = "[increasing_only [10, 20, 30, 40, 50, 60, 70::nat]]"
  have 1: "?ins \<noteq> []" by simp
  have 4: "\<forall>batch \<in> set ([(0, 2), (2, 4), (4, 6), (6, 7)] :: (nat \<times> nat) list).
             \<exists>z. slice_arrays (if is_float (last ?ins) then butlast ?ins else ?ins)
                    (batch_ids_of [0, 1, 4, 5, 2, 3, 6] batch) = Inr z"
    by (simp add: batch_ids_of_def increasing_only_def)
  show ?thesis
    using generator_partition [OF 1 batch_shuffle_example make_batches_example 4] .
qed

lemma increasing_only_example:
  "get_batch_generator [increasing_only [10, 20, 30, 40, 50, 60, 70::nat]] 7 2
     Shuffle_batch [7, 3, 2, 9]
   = ([[NdArray [10, 20]], [NdArray [50, 60]], [NdArray [30, 40]], [NdArray [70]]], None)"
  by (simp add: get_batch_generator_def batch_shuffle_example make_batches_example
      prepare_batch_def batch_ids_of_def increasing_only_def)

theorem slicing_type_error_witness:
  "\<exists>ys. get_batch_generator [increasing_only [10, 20, 30, 40, 50::nat]] 5 2 Shuffle_all [7, 3, 2, 9]
           = (ys, Some (TypeError
                (''TypeError while preparing batch. If using HDF5 input data, pass shuffle=''
                   @ [CHR 0x22] @ ''batch'' @ [CHR 0x22] @ ''.'')))
         \<and> length ys = 1"
proof -
  let ?ins = "[increasing_only [10, 20, 30, 40, 50::nat]]"
  let ?batches = "[(0, 2), (2, 4), (4, 5::nat)] :: (nat \<times> nat) list"
  have 1: "?ins \<noteq> []" by simp
  have 3: "make_batches 5 2 = Inr ?batches" by (simp add: make_batches_def upt_rec)
  have 4: "1 < length ?batches" by simp
  have 5: "\<forall>j<1. \<exists>y. prepare_batch ?ins (batch_ids_of [0, 1, 4, 3, 2] (?batches ! j)) = Inr y"
    by (simp add: prepare_batch_def batch_ids_of_def increasing_only_def)
  have 6: "slice_arrays (if is_float (last ?ins) then butlast ?ins else ?ins)
             (batch_ids_of [0, 1, 4, 3, 2] (?batches ! 1))
           = Inl (TypeError ''Indexing elements must be in increasing order'')"
    by (simp add: batch_ids_of_def increasing_only_def)
  show ?thesis
    using slicing_type_error [OF 1 shuffled_index_array_example 3 4 5 6] .
qed

lemma slicing_type_error_example:
  "get_batch_generator [increasing_only [10, 20, 30, 40, 50::nat]] 5 2 Shuffle_all [7, 3, 2, 9]
   = ([[NdArray [10, 20]]],
      Some (TypeError
        (''TypeError while preparing batch. If using HDF5 input data, pass shuffle=''
           @ [CHR 0x22] @ ''batch'' @ [CHR 0x22] @ ''.'')))"
  by (simp add: get_batch_generator_def shuffled_index_array_example make_batches_def upt_rec
      prepare_batch_def batch_ids_of_def increasing_only_def batch_error_message_def)

theorem batch_shuffle_blocks_witness:
  "\<exists>blocks ys.
     mset blocks = mset (map (\<lambda>k. [k * 2 ..< (k + 1) * 2]) [0 ..< 7 div 2])
   \<and> [0, 1, 4, 5, 2, 3, 6] = concat blocks @ [7 div 2 * 2 ..< 7]
   \<and> get_batch_generator [NdArray [10, 20, 30, 40, 50, 60, 70::nat]] 7 2
         Shuffle_batch [7, 3, 2, 9] = (ys, None)
   \<and> 7 div 2 \<le> length ys
   \<and> (\<forall>j < 7 div 2.
         slice_arrays
           (if is_float (last [NdArray [10, 20, 30, 40, 50, 60, 70::nat]])
            then butlast [NdArray [10, 20, 30, 40, 50, 60, 70]]
            else [NdArray [10, 20, 30, 40, 50, 60, 70]]) (blocks ! j)
         = Inr (if is_float (last [NdArray [10, 20, 30, 40, 50, 60, 70::nat]])
                then butlast (ys ! j) else ys ! j)
       \<and> (\<forall>i rs. i < length [NdArray [10, 20, 30, 40, 50, 60, 70::nat]]
                  \<and> [NdArray [10, 20, 30, 40, 50, 60, 70]] ! i = NdArray rs \<longrightarrow>
              ys ! j ! i = NdArray (map ((!) rs) (blocks ! j))))"
proof -
  let ?ins = "[NdArray [10, 20, 30, 40, 50, 60, 70::nat]]"
  have 1: "?ins \<noteq> []" by simp
  have 4: "\<forall>batch \<in> set ([(0, 2), (2, 4), (4, 6), (6, 7)] :: (nat \<times> nat) list).
             \<exists>z. slice_arrays (if is_float (last ?ins) then butlast ?ins else ?ins)
                    (batch_ids_of [0, 1, 4, 5, 2, 3, 6] batch) = Inr z"
    by (simp add: batch_ids_of_def)
  show ?thesis
    using batch_shuffle_blocks [OF 1 batch_shuffle_example make_batches_example 4] .
qed

lemma batch_shuffle_generator_example:
  "get_batch_generator [NdArray [10, 20, 30, 40, 50, 60, 70::nat]] 7 2
     Shuffle_batch [7, 3, 2, 9]
   = ([[NdArray [10, 20]], [NdArray [50, 60]], [NdArray [30, 40]], [NdArray [70]]], None)"
  by (simp add: get_batch_generator_def batch_shuffle_example make_batches_example
      prepare_batch_def batch_ids_of_def)
section \<open>Properties of the evaluate loop\<close>

lemma evaluated_append: "evaluated (xs @ ys) = evaluated xs @ evaluated ys"
  by (induction xs rule: evaluated.induct) simp_all








lemma notify_simps [simp]:
  "handle (notify hook ev w) = hook (handle w)"
  "trace (notify hook ev w) = trace w @ [ev]"
  "metrics_names (notify hook ev w) = metrics_names w"
  by (simp_all add: notify_def)

lemma evaluate_entry_simps [simp]:
  "evaluated (trace (evaluate_entry M cb w)) = evaluated (trace w)"
  "metrics_names (evaluate_entry M cb w) = metrics_names w"
  by (simp_all add: evaluate_entry_def Let_def evaluated_append)

lemma evaluate_loop_steps:
  assumes "cns ins batch_size (Some S) ''steps'' = Inr num_samples"
  shows "evaluate_loop cns M cb ins batch_size (Some S) w =
           (case evaluate_steps M cb ins (map ((@) ''val_'') (metrics_names w))
                   (stateful_metric_indices_of M (metrics_names w)) 0 S []
                   (evaluate_entry M cb w) of
              (Inl e, w4) \<Rightarrow> (Inl e, w4)
            | (Inr outs, w4) \<Rightarrow>
                (divide_outs (stateful_metric_indices_of M (metrics_names w)) S outs, w4))"
proof -
  have "metrics_names (if has_metrics M then notify (reset_states M) Reset_states w else w)
        = metrics_names w" by simp
  then show ?thesis
    by (simp add: evaluate_loop_def Let_def assms evaluate_entry_def
          cong del: sum.case_cong_weak prod.case_cong_weak if_weak_cong)
qed













lemma evaluate_loop_batches:
  assumes "cns ins (Some b) None ''steps'' = Inr (Some n)"
  shows "evaluate_loop cns M cb ins (Some b) None w =
           (case evaluate_batches M cb (get_sparse_conversion_indices M False ins)
                   (map ((@) ''val_'') (metrics_names w))
                   (stateful_metric_indices_of M (metrics_names w)) 0
                   (generator_items (get_batch_generator ins n b No_shuffle [])) []
                   (evaluate_entry M cb w) of
              (Inl e, w4) \<Rightarrow> (Inl e, w4)
            | (Inr outs, w4) \<Rightarrow>
                (divide_outs (stateful_metric_indices_of M (metrics_names w)) n outs, w4))"
proof -
  have "metrics_names (if has_metrics M then notify (reset_states M) Reset_states w else w)
        = metrics_names w" by simp
  then show ?thesis
    by (simp add: evaluate_loop_def Let_def assms evaluate_entry_def batch_items_def
          cong del: sum.case_cong_weak prod.case_cong_weak if_weak_cong)
qed

subsection \<open>Examples of the evaluate loop\<close>

lemma constant_model_indices:
  "stateful_metric_indices_of (simple_model f g) [''loss'', ''acc''] = [1]"
  by (simp add: stateful_metric_indices_of_def simple_model_def)

lemma fresh_simps [simp]:
  "trace (fresh names) = []" "metrics_names (fresh names) = names"
  by (simp_all add: fresh_def)

lemma four_steps_run_value:
  "four_steps_run = (Inr [5, 5],
     \<lparr>handle = \<lparr>stop_training = False, stop_evaluating = False, stop_predicting = False,
                 user = ()\<rparr>,
      metrics_names = [''loss'', ''acc''],
      trace = [Reset_states, Set_model, Set_params,
        Evaluate_batch_begin 0, Test_step [] [5, 5], Evaluate_batch_end 0 1 [5, 5],
        Evaluate_batch_begin 1, Test_step [] [5, 5], Evaluate_batch_end 1 1 [5, 5],
        Evaluate_batch_begin 2, Test_step [] [5, 5], Evaluate_batch_end 2 1 [5, 5],
        Evaluate_batch_begin 3, Test_step [] [5, 5], Evaluate_batch_end 3 1 [5, 5]]\<rparr>)"
proof -
  let ?M = "simple_model (\<lambda>batch_ins. [5, 5]) (\<lambda>batch_ins. []) :: (unit, nat) model"
  have cns: "first_dimension ([] :: nat tensor list) None (Some 4) ''steps'' = Inr None"
    by (simp add: first_dimension_def)
  have entry: "evaluate_entry ?M silent (fresh [''loss'', ''acc''])
      = \<lparr>handle = \<lparr>stop_training = False, stop_evaluating = False, stop_predicting = False,
                 user = ()\<rparr>,
      metrics_names = [''loss'', ''acc''],
      trace = [Reset_states, Set_model, Set_params]\<rparr>"
    by (simp add: evaluate_entry_def simple_model_def silent_def fresh_def notify_def)
  have steps: "evaluate_steps ?M silent [] (map ((@) ''val_'') [''loss'', ''acc'']) [1] 0 4 []
      \<lparr>handle = \<lparr>stop_training = False, stop_evaluating = False, stop_predicting = False,
                 user = ()\<rparr>,
      metrics_names = [''loss'', ''acc''],
      trace = [Reset_states, Set_model, Set_params]\<rparr>
    = (Inr [20, 5], \<lparr>handle = \<lparr>stop_training = False, stop_evaluating = False, stop_predicting = False,
                 user = ()\<rparr>,
      metrics_names = [''loss'', ''acc''],
      trace = [Reset_states, Set_model, Set_params,
        Evaluate_batch_begin 0, Test_step [] [5, 5], Evaluate_batch_end 0 1 [5, 5],
        Evaluate_batch_begin 1, Test_step [] [5, 5], Evaluate_batch_end 1 1 [5, 5],
        Evaluate_batch_begin 2, Test_step [] [5, 5], Evaluate_batch_end 2 1 [5, 5],
        Evaluate_batch_begin 3, Test_step [] [5, 5], Evaluate_batch_end 3 1 [5, 5]]\<rparr>)"
    by (simp add: simple_model_def silent_def notify_def eval_nat_numeral Let_def)
  have dv: "divide_outs [1] 4 [20, 5] = Inr [5, 5]" by (simp add: divide_outs_def)
  show ?thesis
    unfolding four_steps_run_def
      evaluate_loop_steps [where cns = first_dimension and ins = "[]" and batch_size = None, OF cns]
    by (simp only: fresh_simps constant_model_indices entry steps dv prod.case sum.case)
qed


lemma four_steps_result: "fst four_steps_run = Inr [5, 5]"
  by (simp add: four_steps_run_value)

lemma stopped_steps_run_value:
  "stopped_steps_run = (Inr [5 / 2, 5],
     \<lparr>handle = \<lparr>stop_training = False, stop_evaluating = True, stop_predicting = False,
                 user = ()\<rparr>,
      metrics_names = [''loss'', ''acc''],
      trace = [Reset_states, Set_model, Set_params,
        Evaluate_batch_begin 0, Test_step [] [5, 5], Evaluate_batch_end 0 1 [5, 5],
        Evaluate_batch_begin 1, Test_step [] [5, 5], Evaluate_batch_end 1 1 [5, 5]]\<rparr>)"
proof -
  let ?M = "simple_model (\<lambda>batch_ins. [5, 5]) (\<lambda>batch_ins. []) :: (unit, nat) model"
  have cns: "first_dimension ([] :: nat tensor list) None (Some 4) ''steps'' = Inr None"
    by (simp add: first_dimension_def)
  have entry: "evaluate_entry ?M (stop_evaluating_at 1) (fresh [''loss'', ''acc''])
      = \<lparr>handle = \<lparr>stop_training = False, stop_evaluating = False, stop_predicting = False,
                 user = ()\<rparr>,
      metrics_names = [''loss'', ''acc''],
      trace = [Reset_states, Set_model, Set_params]\<rparr>"
    by (simp add: evaluate_entry_def simple_model_def stop_evaluating_at_def silent_def fresh_def
        notify_def)
  have steps: "evaluate_steps ?M (stop_evaluating_at 1) [] (map ((@) ''val_'') [''loss'', ''acc''])
      [1] 0 4 []
      \<lparr>handle = \<lparr>stop_training = False, stop_evaluating = False, stop_predicting = False,
                 user = ()\<rparr>,
      metrics_names = [''loss'', ''acc''],
      trace = [Reset_states, Set_model, Set_params]\<rparr>
    = (Inr [10, 5], \<lparr>handle = \<lparr>stop_training = False, stop_evaluating = True,
                 stop_predicting = False, user = ()\<rparr>,
      metrics_names = [''loss'', ''acc''],
      trace = [Reset_states, Set_model, Set_params,
        Evaluate_batch_begin 0, Test_step [] [5, 5], Evaluate_batch_end 0 1 [5, 5],
        Evaluate_batch_begin 1, Test_step [] [5, 5], Evaluate_batch_end 1 1 [5, 5]]\<rparr>)"
    by (simp add: simple_model_def stop_evaluating_at_def silent_def notify_def eval_nat_numeral
        Let_def)
  have dv: "divide_outs [1] 4 [10, 5] = Inr [5 / 2, 5]" by (simp add: divide_outs_def)
  show ?thesis
    unfolding stopped_steps_run_def
      evaluate_loop_steps [where cns = first_dimension and ins = "[]" and batch_size = None, OF cns]
    by (simp only: fresh_simps constant_model_indices entry steps dv prod.case sum.case)
qed


lemma stopped_steps_result: "fst stopped_steps_run = Inr [5 / 2, 5]"
  by (simp add: stopped_steps_run_value)

lemma two_batches_generator:
  "get_batch_generator [NdArray [1, 2, 3, 4, 5::nat]] 5 3 No_shuffle []
   = ([[NdArray [1, 2, 3]], [NdArray [4, 5]]], None)"
  by (simp add: get_batch_generator_def index_array_of_def make_batches_def prepare_batch_def
      batch_ids_of_def upt_rec)

lemma two_batches_run_value:
  "two_batches_run = (Inr [14],
     \<lparr>handle = \<lparr>stop_training = False, stop_evaluating = False, stop_predicting = False,
                 user = ()\<rparr>,
      metrics_names = [''loss''],
      trace = [Reset_states, Set_model, Set_params,
        Evaluate_batch_begin 0, Test_step [NdArray [1, 2, 3]] [10], Evaluate_batch_end 0 3 [10],
        Evaluate_batch_begin 1, Test_step [NdArray [4, 5]] [20], Evaluate_batch_end 1 2 [20]]\<rparr>)"
proof -
  let ?M = "simple_model (\<lambda>batch_ins. [if get_batch_size batch_ins = Inr 3 then 10 else 20])
              (\<lambda>batch_ins. []) :: (unit, nat) model"
  have cns: "first_dimension [NdArray [1, 2, 3, 4, 5::nat]] (Some 3) None ''steps'' = Inr (Some 5)"
    by (simp add: first_dimension_def)
  have idx: "stateful_metric_indices_of ?M [''loss''] = []"
    by (simp add: stateful_metric_indices_of_def simple_model_def)
  have conv: "get_sparse_conversion_indices ?M False [NdArray [1, 2, 3, 4, 5::nat]] = []"
    by (simp add: simple_model_def)
  have entry: "evaluate_entry ?M silent (fresh [''loss''])
      = \<lparr>handle = \<lparr>stop_training = False, stop_evaluating = False, stop_predicting = False,
                 user = ()\<rparr>,
      metrics_names = [''loss''],
      trace = [Reset_states, Set_model, Set_params]\<rparr>"
    by (simp add: evaluate_entry_def simple_model_def silent_def fresh_def notify_def)
  have items: "generator_items ([[NdArray [1, 2, 3]], [NdArray [4, 5::nat]]], None)
               = [Inr [NdArray [1, 2, 3]], Inr [NdArray [4, 5]]]"
    by (simp add: generator_items_def)
  have batches: "evaluate_batches ?M silent [] (map ((@) ''val_'') [''loss'']) [] 0
      [Inr [NdArray [1, 2, 3]], Inr [NdArray [4, 5]]] []
      \<lparr>handle = \<lparr>stop_training = False, stop_evaluating = False, stop_predicting = False,
                 user = ()\<rparr>,
      metrics_names = [''loss''],
      trace = [Reset_states, Set_model, Set_params]\<rparr>
    = (Inr [70], \<lparr>handle = \<lparr>stop_training = False, stop_evaluating = False,
                 stop_predicting = False, user = ()\<rparr>,
      metrics_names = [''loss''],
      trace = [Reset_states, Set_model, Set_params,
        Evaluate_batch_begin 0, Test_step [NdArray [1, 2, 3]] [10], Evaluate_batch_end 0 3 [10],
        Evaluate_batch_begin 1, Test_step [NdArray [4, 5]] [20], Evaluate_batch_end 1 2 [20]]\<rparr>)"
    by (simp add: simple_model_def silent_def notify_def get_batch_size_def Let_def)
  have dv: "divide_outs [] 5 [70] = Inr [14]" by (simp add: divide_outs_def)
  show ?thesis
    unfolding two_batches_run_def
      evaluate_loop_batches [where cns = first_dimension and ins = "[NdArray [1, 2, 3, 4, 5]]"
        and b = 3, OF cns]
    by (simp only: fresh_simps idx conv two_batches_generator items entry batches dv
          prod.case sum.case)
qed


lemma two_batches_result: "fst two_batches_run = Inr [14]"
  by (simp add: two_batches_run_value)
section \<open>Properties of the fit loop\<close>






end
